theory Spec2Isabelle
  imports Complex_Main
begin

section \<open>Ceiling Pop 3D: scoring, pooling, entities, collisions and waves\<close>

text \<open>
  A shallow embedding of the simulation core of the game: \<^verbatim>\<open>src/js/utils.js\<close>
  (MathUtils, ObjectPool), \<^verbatim>\<open>src/js/game-state.js\<close> (PlayerState, PowerUpManager,
  GameFlow), \<^verbatim>\<open>src/js/game-objects.js\<close> (GameObject3D, Balloon3D, EnemyDrone3D,
  Projectile3D), \<^verbatim>\<open>src/js/scene-manager.js\<close> (handleCollisions, removeObject, spawnBoss)
  and the main loop of the GameController in \<^verbatim>\<open>src/unnamed/part_000\<close> (gameLoop,
  updateGame, checkGameConditions, levelComplete).

  Numbers. Every JavaScript number is an IEEE 754 double. Counters, point values,
  hit-points and the millisecond readings of \<^verbatim>\<open>Date.now()\<close> only ever hold integers in the
  source and are \<open>int\<close> here; they are taken to stay within \<open>2^53\<close> in magnitude, where a
  double holds every integer and integer sums and differences are exact. Multipliers,
  scores in the making, depths, positions, ages and time steps are computed in double
  precision: they are \<open>real\<close> here, and every arithmetic operation of the source rounds its
  exact result to the nearest double, ties to even. Results are taken to be finite:
  overflow to Infinity, division by zero and NaN are outside the model.

  Effects that are left out because they only touch the renderer, the audio or the DOM:
  meshes and materials, particles, sounds, camera shake, \<^verbatim>\<open>updateUI\<close>, modals, console
  output.
\<close>

subsection \<open>Double-precision arithmetic\<close>

text \<open>
  \<open>pow2 e\<close> is \<open>2^e\<close>. A double of binary exponent \<open>e\<close> is a multiple of \<open>2^(e - 52)\<close> by an
  integer of magnitude below \<open>2^53\<close>; below \<open>2^(-1022)\<close> (the subnormal doubles) the step stays
  \<open>2^(-1074)\<close>. \<open>roundHalfEven\<close> rounds a real to the nearest integer, a tie to the even
  one; \<open>roundAt e x\<close> rounds \<open>x\<close> to the nearest multiple of \<open>2^(e - 52)\<close>; \<open>fl x\<close> is the double
  nearest to \<open>x\<close>, the rounding every operation below applies to its exact result.
\<close>

definition pow2 :: "int \<Rightarrow> real" where
  "pow2 e = (if 0 \<le> e then 2 ^ nat e else 1 / 2 ^ nat (- e))"

definition roundHalfEven :: "real \<Rightarrow> int" where
  "roundHalfEven y =
     (let f = \<lfloor>y\<rfloor>; r = y - of_int f
      in if r < 1 / 2 then f else if r > 1 / 2 then f + 1 else if even f then f else f + 1)"

definition roundAt :: "int \<Rightarrow> real \<Rightarrow> real" where
  "roundAt e x = of_int (roundHalfEven (x / pow2 (e - 52))) * pow2 (e - 52)"

definition fl :: "real \<Rightarrow> real" where
  "fl x = (if x = 0 then 0 else roundAt (max \<lfloor>log 2 \<bar>x\<bar>\<rfloor> (- 1022)) x)"

text \<open>
  The operators \<^verbatim>\<open>+\<close>, \<^verbatim>\<open>-\<close>, \<^verbatim>\<open>*\<close> and \<^verbatim>\<open>/\<close> of JavaScript on finite doubles. The literal
  \<^verbatim>\<open>0.1\<close> is the double \<open>fl (1 / 10)\<close>; \<^verbatim>\<open>0.5\<close>, \<^verbatim>\<open>1.5\<close> and the integers are doubles as they
  stand. \<^verbatim>\<open>Math.min\<close>, \<^verbatim>\<open>Math.max\<close>, \<^verbatim>\<open>Math.abs\<close> and \<^verbatim>\<open>Math.floor\<close> are exact.
\<close>

definition jsAdd :: "real \<Rightarrow> real \<Rightarrow> real" where
  "jsAdd a b = fl (a + b)"

definition jsSub :: "real \<Rightarrow> real \<Rightarrow> real" where
  "jsSub a b = fl (a - b)"

definition jsMul :: "real \<Rightarrow> real \<Rightarrow> real" where
  "jsMul a b = fl (a * b)"

definition jsDiv :: "real \<Rightarrow> real \<Rightarrow> real" where
  "jsDiv a b = fl (a / b)"

subsection \<open>MathUtils\<close>

text \<open>
  \<^verbatim>\<open>getDepthBonus: (z, maxDepth = 200) => { const normalizedDepth = Math.abs(z) / maxDepth;
  return 1 + Math.min(normalizedDepth * 2, 3); }\<close>
  Callers that rely on the default pass 200 explicitly here.
\<close>

definition getDepthBonus :: "real \<Rightarrow> real \<Rightarrow> real" where
  "getDepthBonus z maxDepth =
     (let normalizedDepth = jsDiv \<bar>z\<bar> maxDepth
      in jsAdd 1 (min (jsMul normalizedDepth 2) 3))"

record vec3 =
  vec_x :: real
  vec_y :: real
  vec_z :: real

text \<open>
  THREE.Vector3.distanceTo, used by \<^verbatim>\<open>GameObject3D.getDistance\<close>: the square root of
  \<^verbatim>\<open>dx * dx + dy * dy + dz * dz\<close>, where \<^verbatim>\<open>Math.sqrt\<close> rounds the exact root.
\<close>

definition distanceTo :: "vec3 \<Rightarrow> vec3 \<Rightarrow> real" where
  "distanceTo a b =
     (let dx = jsSub (vec_x a) (vec_x b); dy = jsSub (vec_y a) (vec_y b);
          dz = jsSub (vec_z a) (vec_z b)
      in fl (sqrt (jsAdd (jsAdd (jsMul dx dx) (jsMul dy dy)) (jsMul dz dz))))"

subsection \<open>Arrays\<close>

text \<open>\<^verbatim>\<open>Array.prototype.indexOf\<close> (first index, or -1) and \<^verbatim>\<open>splice(index, 1)\<close>.\<close>

fun indexOf :: "'a list \<Rightarrow> 'a \<Rightarrow> int" where
  "indexOf [] a = -1"
| "indexOf (b # bs) a =
     (if b = a then 0 else (let i = indexOf bs a in if i = -1 then -1 else i + 1))"

definition splice1 :: "int \<Rightarrow> 'a list \<Rightarrow> 'a list" where
  "splice1 index arr = take (nat index) arr @ drop (Suc (nat index)) arr"

subsection \<open>PlayerState\<close>

record Stats =
  balloonsPopped :: int
  enemiesDestroyed :: int
  powerUpsCollected :: int
  totalShotsAccuracy :: int
  maxCombo :: int
  currentCombo :: int
  depthBonusesEarned :: int
  vortexChainsTriggered :: int

record PlayerState =
  score :: int
  level :: int
  wave :: int
  missed :: int
  health :: int
  maxHealth :: int
  shields :: int
  maxShields :: int
  isShielded :: bool
  depthBonus :: real
  totalDepthBonusEarned :: int
  vortexChainCount :: int
  perspectiveAccuracy :: real
  stats :: Stats
  MAX_MISSED :: int

definition PlayerState_constructor :: PlayerState where
  "PlayerState_constructor =
     \<lparr> score = 0, level = 1, wave = 1, missed = 0, health = 100, maxHealth = 100,
       shields = 100, maxShields = 100, isShielded = False,
       depthBonus = 1, totalDepthBonusEarned = 0, vortexChainCount = 0,
       perspectiveAccuracy = 1,
       stats = \<lparr> balloonsPopped = 0, enemiesDestroyed = 0, powerUpsCollected = 0,
                 totalShotsAccuracy = 0, maxCombo = 0, currentCombo = 0,
                 depthBonusesEarned = 0, vortexChainsTriggered = 0 \<rparr>,
       MAX_MISSED = 20 \<rparr>"

text \<open>
  \<^verbatim>\<open>reset()\<close> assigns eleven fields and rebuilds \<^verbatim>\<open>stats\<close> with
  \<^verbatim>\<open>maxCombo: maxCombo\<close>, the value read before (``Reset stats but keep some
  persistent data''). It does not assign maxHealth, maxShields or MAX_MISSED.
\<close>

definition PlayerState_reset :: "PlayerState \<Rightarrow> PlayerState" where
  "PlayerState_reset this =
     (let this1 = this\<lparr> score := 0, level := 1, wave := 1, missed := 0, health := 100,
                        shields := 100, isShielded := False, depthBonus := 1,
                        totalDepthBonusEarned := 0, vortexChainCount := 0,
                        perspectiveAccuracy := 1 \<rparr>;
          maxCombo' = maxCombo (stats this1)
      in this1\<lparr> stats := \<lparr> balloonsPopped = 0, enemiesDestroyed = 0, powerUpsCollected = 0,
                            totalShotsAccuracy = 0, maxCombo = maxCombo', currentCombo = 0,
                            depthBonusesEarned = 0, vortexChainsTriggered = 0 \<rparr> \<rparr>)"

text \<open>
  \<^verbatim>\<open>addScore(points, position = null)\<close>. The test \<^verbatim>\<open>position && position.z\<close> fails for
  a null position and for \<open>z = 0\<close>. The depth stage floors once, the combo stage floors
  again; \<^verbatim>\<open>comboMultiplier = 1 + (this.stats.currentCombo * 0.1)\<close>. Returns
  \<^verbatim>\<open>finalPoints\<close> and the updated player.
\<close>

definition PlayerState_addScore :: "int \<Rightarrow> vec3 option \<Rightarrow> PlayerState \<Rightarrow> int \<times> PlayerState" where
  "PlayerState_addScore points' position' this =
     (let (finalPoints1, this1) =
            (case position' of
               None \<Rightarrow> (points', this)
             | Some pos \<Rightarrow>
                 if vec_z pos = 0 then (points', this)
                 else
                   (let depthMultiplier = getDepthBonus (vec_z pos) 200;
                        thisD = this\<lparr> depthBonus := depthMultiplier \<rparr>;
                        fp = \<lfloor>jsMul (real_of_int points') depthMultiplier\<rfloor>
                    in if depthMultiplier > 1.5
                       then (fp, thisD\<lparr> totalDepthBonusEarned :=
                                          totalDepthBonusEarned thisD + (fp - points'),
                                        stats := (stats thisD)\<lparr> depthBonusesEarned :=
                                          depthBonusesEarned (stats thisD) + 1 \<rparr> \<rparr>)
                       else (fp, thisD)));
          comboMultiplier = jsAdd 1 (jsMul (real_of_int (currentCombo (stats this1))) (fl (1 / 10)));
          finalPoints = \<lfloor>jsMul (real_of_int finalPoints1) comboMultiplier\<rfloor>;
          this2 = this1\<lparr> score := score this1 + finalPoints \<rparr>;
          this3 = this2\<lparr> stats := (stats this2)\<lparr> currentCombo :=
                                      currentCombo (stats this2) + 1 \<rparr> \<rparr>;
          this4 = this3\<lparr> stats := (stats this3)\<lparr> maxCombo :=
                                      max (maxCombo (stats this3)) (currentCombo (stats this3)) \<rparr> \<rparr>
      in (finalPoints, this4))"

definition PlayerState_breakCombo :: "PlayerState \<Rightarrow> PlayerState" where
  "PlayerState_breakCombo this = this\<lparr> stats := (stats this)\<lparr> currentCombo := 0 \<rparr> \<rparr>"

definition PlayerState_setWave :: "int \<Rightarrow> PlayerState \<Rightarrow> PlayerState" where
  "PlayerState_setWave wave' this = this\<lparr> wave := wave' \<rparr>"

text \<open>\<^verbatim>\<open>addMissed()\<close> and \<^verbatim>\<open>takeDamage(amount)\<close> return the game-over flag.\<close>

definition PlayerState_addMissed :: "PlayerState \<Rightarrow> bool \<times> PlayerState" where
  "PlayerState_addMissed this =
     (if isShielded this then (False, this)
      else
        (let this1 = this\<lparr> missed := missed this + 1 \<rparr>;
             this2 = PlayerState_breakCombo this1
         in if missed this2 \<ge> MAX_MISSED this2 then (True, this2) else (False, this2)))"

definition PlayerState_takeDamage :: "int \<Rightarrow> PlayerState \<Rightarrow> bool \<times> PlayerState" where
  "PlayerState_takeDamage amount this =
     (if isShielded this then (False, this)
      else
        (let this1 = this\<lparr> health := max 0 (health this - amount) \<rparr>;
             this2 = this1\<lparr> shields := max 0 (shields this1 - amount) \<rparr>;
             this3 = PlayerState_breakCombo this2
         in if health this3 \<le> 0 then (True, this3) else (False, this3)))"

text \<open>\<^verbatim>\<open>addVortexChain()\<close> returns the chain bonus, \<^verbatim>\<open>vortexChainCount * 25\<close>.\<close>

definition PlayerState_addVortexChain :: "PlayerState \<Rightarrow> int \<times> PlayerState" where
  "PlayerState_addVortexChain this =
     (let this1 = this\<lparr> vortexChainCount := vortexChainCount this + 1 \<rparr>;
          this2 = this1\<lparr> stats := (stats this1)\<lparr> vortexChainsTriggered :=
                                      vortexChainsTriggered (stats this1) + 1 \<rparr> \<rparr>;
          chainBonus = vortexChainCount this2 * 25
      in (chainBonus, snd (PlayerState_addScore chainBonus None this2)))"

subsection \<open>ObjectPool\<close>

text \<open>
  Pooled objects are references (\<open>nat\<close>) into \<open>instances\<close>, the states of the objects
  the pool has created. \<^verbatim>\<open>createFn()\<close> builds a new object: a reference never used
  before (\<open>allocated\<close> counts them), whose initial state \<open>createFn\<close> gives.
  \<^verbatim>\<open>pop()\<close> takes the last element, \<^verbatim>\<open>push\<close> appends. The constructor's \<open>blank\<close>
  fills the store at the references not yet allocated; nothing reads it there.
  \<^verbatim>\<open>createFn\<close> and \<^verbatim>\<open>resetFn\<close> are taken not to throw, as the two pools of the
  SceneManager have them.
\<close>

record 'o ObjectPool =
  createFn :: "nat \<Rightarrow> 'o"
  resetFn :: "'o \<Rightarrow> 'o"
  pool :: "nat list"
  active :: "nat list"
  instances :: "nat \<Rightarrow> 'o"
  allocated :: nat

definition ObjectPool_create :: "'o ObjectPool \<Rightarrow> nat \<times> 'o ObjectPool" where
  "ObjectPool_create this =
     (let obj = allocated this
      in (obj, this\<lparr> instances := (instances this)(obj := createFn this obj),
                     allocated := Suc obj \<rparr>))"

fun ObjectPool_prepopulate :: "nat \<Rightarrow> 'o ObjectPool \<Rightarrow> 'o ObjectPool" where
  "ObjectPool_prepopulate 0 this = this"
| "ObjectPool_prepopulate (Suc n) this =
     (let (obj, this1) = ObjectPool_create this
      in ObjectPool_prepopulate n (this1\<lparr> pool := pool this1 @ [obj] \<rparr>))"

definition ObjectPool_constructor ::
  "(nat \<Rightarrow> 'o) \<Rightarrow> ('o \<Rightarrow> 'o) \<Rightarrow> nat \<Rightarrow> 'o \<Rightarrow> 'o ObjectPool" where
  "ObjectPool_constructor createFn' resetFn' initialSize blank =
     ObjectPool_prepopulate initialSize
       \<lparr> createFn = createFn', resetFn = resetFn', pool = [], active = [],
         instances = (\<lambda>_. blank), allocated = 0 \<rparr>"

definition ObjectPool_acquire :: "'o ObjectPool \<Rightarrow> nat \<times> 'o ObjectPool" where
  "ObjectPool_acquire this =
     (let (obj, this1) =
            (if length (pool this) > 0
             then (last (pool this), this\<lparr> pool := butlast (pool this) \<rparr>)
             else ObjectPool_create this)
      in (obj, this1\<lparr> active := active this1 @ [obj] \<rparr>))"

definition ObjectPool_release :: "nat \<Rightarrow> 'o ObjectPool \<Rightarrow> 'o ObjectPool" where
  "ObjectPool_release obj this =
     (let index = indexOf (active this) obj
      in if index \<noteq> -1
         then this\<lparr> active := splice1 index (active this),
                    instances := (instances this)(obj := resetFn this (instances this obj)),
                    pool := pool this @ [obj] \<rparr>
         else this)"

lemma indexOf_range: "indexOf xs a = -1 \<or> (0 \<le> indexOf xs a \<and> indexOf xs a < int (length xs))"
  by (induction xs) (auto simp: Let_def)

lemma indexOf_absent: "indexOf xs a = -1 \<longleftrightarrow> a \<notin> set xs"
proof (induction xs)
  case Nil
  show ?case by simp
next
  case (Cons b bs)
  have "indexOf bs a = -1 \<or> 0 \<le> indexOf bs a"
    using indexOf_range [of bs a] by auto
  with Cons show ?case by (auto simp: Let_def)
qed

lemma splice1_indexOf: "a \<in> set xs \<Longrightarrow> splice1 (indexOf xs a) xs = remove1 a xs"
proof (induction xs)
  case Nil
  then show ?case by simp
next
  case (Cons b bs)
  show ?case
  proof (cases "b = a")
    case True
    then show ?thesis by (simp add: splice1_def)
  next
    case False
    with Cons.prems have mem: "a \<in> set bs" by simp
    then have ne: "indexOf bs a \<noteq> -1" by (simp add: indexOf_absent)
    then have ge: "0 \<le> indexOf bs a" using indexOf_range [of bs a] by auto
    then have "nat (indexOf bs a + 1) = Suc (nat (indexOf bs a))" by simp
    with False ne Cons.IH [OF mem] show ?thesis
      by (simp add: splice1_def Let_def)
  qed
qed

lemma ObjectPool_release_active:
  "ObjectPool_release obj this =
     (if obj \<in> set (active this)
      then this\<lparr> active := remove1 obj (active this),
                 instances := (instances this)(obj := resetFn this (instances this obj)),
                 pool := pool this @ [obj] \<rparr>
      else this)"
  by (simp add: ObjectPool_release_def Let_def indexOf_absent splice1_indexOf)

text \<open>\<^verbatim>\<open>releaseAll() { while (this.active.length > 0) this.release(this.active[0]); }\<close>\<close>

function ObjectPool_releaseAll :: "'o ObjectPool \<Rightarrow> 'o ObjectPool" where
  "ObjectPool_releaseAll this =
     (if length (active this) > 0
      then ObjectPool_releaseAll (ObjectPool_release (active this ! 0) this)
      else this)"
  by pat_completeness auto
termination
proof (relation "measure (\<lambda>this. length (active this))")
  show "wf (measure (\<lambda>this::'o ObjectPool. length (active this)))" by simp
next
  fix this :: "'o ObjectPool"
  assume "0 < length (active this)"
  then obtain a as where "active this = a # as" by (cases "active this") auto
  then show "(ObjectPool_release (active this ! 0) this, this)
               \<in> measure (\<lambda>this. length (active this))"
    by (simp add: ObjectPool_release_active)
qed

declare ObjectPool_releaseAll.simps [simp del]

text \<open>The operations a client can perform on a pool, and a run of them.\<close>

datatype PoolOp = Acquire | Release nat | ReleaseAll

fun ObjectPool_apply :: "PoolOp \<Rightarrow> 'o ObjectPool \<Rightarrow> 'o ObjectPool" where
  "ObjectPool_apply Acquire this = snd (ObjectPool_acquire this)"
| "ObjectPool_apply (Release obj) this = ObjectPool_release obj this"
| "ObjectPool_apply ReleaseAll this = ObjectPool_releaseAll this"

subsection \<open>PowerUpManager\<close>

datatype PowerUpType = ENERGY_BEAM | MINI_SHIPS | SHIELD | DEPTH_VISION | VORTEX_AMPLIFIER

fun duration :: "PowerUpType \<Rightarrow> int" where
  "duration ENERGY_BEAM = 12000"
| "duration MINI_SHIPS = 18000"
| "duration SHIELD = 10000"
| "duration DEPTH_VISION = 15000"
| "duration VORTEX_AMPLIFIER = 20000"

record PowerUpManager =
  activePowerUp :: "PowerUpType option"
  endTime :: int

text \<open>
  The methods of PowerUpManager act on the manager (\<open>this\<close>) and on \<^verbatim>\<open>window.player\<close>,
  which may be null (\<open>None\<close>). Of the power-up effects only SHIELD touches the player;
  the others call into the renderer or spawn support drones, which are not modelled.
\<close>

fun PowerUpManager_activatePowerUpEffect ::
  "PowerUpType \<Rightarrow> PlayerState option \<Rightarrow> PlayerState option" where
  "PowerUpManager_activatePowerUpEffect SHIELD (Some p) = Some (p\<lparr> isShielded := True \<rparr>)"
| "PowerUpManager_activatePowerUpEffect _ pl = pl"

fun PowerUpManager_deactivatePowerUpEffect ::
  "PowerUpType \<Rightarrow> PlayerState option \<Rightarrow> PlayerState option" where
  "PowerUpManager_deactivatePowerUpEffect SHIELD (Some p) = Some (p\<lparr> isShielded := False \<rparr>)"
| "PowerUpManager_deactivatePowerUpEffect _ pl = pl"

definition PowerUpManager_deactivate ::
  "PowerUpManager \<times> PlayerState option \<Rightarrow> PowerUpManager \<times> PlayerState option" where
  "PowerUpManager_deactivate = (\<lambda>(this, pl).
     (case activePowerUp this of
        None \<Rightarrow> (this, pl)
      | Some type' \<Rightarrow>
          (let pl1 = PowerUpManager_deactivatePowerUpEffect type' pl
           in (this\<lparr> activePowerUp := None \<rparr>, pl1))))"

text \<open>\<^verbatim>\<open>activate(type)\<close>; \<open>now\<close> is the reading of \<^verbatim>\<open>Date.now()\<close>.\<close>

definition PowerUpManager_activate ::
  "int \<Rightarrow> PowerUpType \<Rightarrow> PowerUpManager \<times> PlayerState option
     \<Rightarrow> PowerUpManager \<times> PlayerState option" where
  "PowerUpManager_activate now type' = (\<lambda>(this, pl).
     (let (this1, pl1) =
            (case activePowerUp this of
               Some _ \<Rightarrow> PowerUpManager_deactivate (this, pl)
             | None \<Rightarrow> (this, pl));
          this2 = this1\<lparr> activePowerUp := Some type' \<rparr>;
          this3 = this2\<lparr> endTime := now + duration type' \<rparr>;
          pl2 = PowerUpManager_activatePowerUpEffect type' pl1;
          pl3 = (case pl2 of
                   None \<Rightarrow> None
                 | Some p \<Rightarrow> Some (p\<lparr> stats := (stats p)\<lparr> powerUpsCollected :=
                                         powerUpsCollected (stats p) + 1 \<rparr> \<rparr>))
      in (this3, pl3)))"

text \<open>\<^verbatim>\<open>isActive(type = null)\<close>\<close>

definition PowerUpManager_isActive :: "PowerUpType option \<Rightarrow> PowerUpManager \<Rightarrow> bool" where
  "PowerUpManager_isActive type' this =
     (case type' of
        Some t \<Rightarrow> activePowerUp this = Some t
      | None \<Rightarrow> activePowerUp this \<noteq> None)"

subsection \<open>Game objects and the world they live in\<close>

text \<open>
  \<^verbatim>\<open>maxAge\<close> is \<^verbatim>\<open>Infinity\<close> unless a subclass sets it; \<open>None\<close> stands for Infinity.
\<close>

record GameObject3D =
  position :: vec3
  velocity :: vec3
  isAlive :: bool
  age :: real
  maxAge :: "real option"

datatype BalloonType = Normal | Armored | PowerUp

record Balloon3D = GameObject3D +
  radius :: real
  balloon_points :: int
  balloon_health :: int
  balloon_type :: BalloonType

record EnemyDrone3D = GameObject3D +
  width :: real
  height :: real
  depth :: real
  enemy_health :: int
  enemy_points :: int

datatype Owner = PlayerOwner | EnemyOwner

record Projectile3D = GameObject3D +
  owner :: Owner
  damage :: int

text \<open>
  Objects are shared between arrays, callbacks and loops, so they live in stores indexed
  by reference, and the arrays of the SceneManager hold references.
  \<^item> \<open>player\<close>, \<open>powerUpManager\<close>: \<^verbatim>\<open>window.player\<close>, \<^verbatim>\<open>window.powerUpManager\<close> (null = \<open>None\<close>).
  \<^item> \<open>balloons\<close>, \<open>enemies\<close>, \<open>projectiles\<close>: the arrays of the SceneManager.
    \<^verbatim>\<open>window.sceneManager\<close> and \<^verbatim>\<open>window.gameController\<close> are taken to be set, as they are
    from \<^verbatim>\<open>GameController.initializeSystems\<close> on, before any entity is spawned.
  \<^item> \<open>timers\<close>: the balloons for which a chain-reaction callback is pending
    (\<^verbatim>\<open>setTimeout\<close> in \<^verbatim>\<open>checkVortexChain\<close>), in scheduling order.
  \<^item> \<open>gameOverCalls\<close>: how often \<^verbatim>\<open>window.gameController.gameOver()\<close> has been called.
  \<^item> \<open>dateNow\<close>: the reading of \<^verbatim>\<open>Date.now()\<close>.
  \<^item> \<open>randomPowerUp\<close>, \<open>randomCalls\<close>: the values \<^verbatim>\<open>getRandomPowerUpType()\<close> returns, call
    by call, and the number of calls made.
\<close>

record world =
  player :: "PlayerState option"
  powerUpManager :: "PowerUpManager option"
  balloons :: "nat list"
  enemies :: "nat list"
  projectiles :: "nat list"
  balloonObj :: "nat \<Rightarrow> Balloon3D"
  enemyObj :: "nat \<Rightarrow> EnemyDrone3D"
  projectileObj :: "nat \<Rightarrow> Projectile3D"
  timers :: "nat list"
  gameOverCalls :: nat
  dateNow :: int
  randomPowerUp :: "nat \<Rightarrow> PowerUpType"
  randomCalls :: nat

text \<open>
  \<^verbatim>\<open>GameObject3D.update\<close> first advances age and position; then it calls
  \<^verbatim>\<open>this.destroy()\<close>, dispatched on the subclass, when \<^verbatim>\<open>age >= maxAge\<close>.
  \<^verbatim>\<open>GameObject3D.destroy\<close> clears the liveness flag (and releases the mesh).
\<close>

definition GameObject3D_advance ::
  "real \<Rightarrow> 'a GameObject3D_scheme \<Rightarrow> 'a GameObject3D_scheme" where
  "GameObject3D_advance deltaTime this =
     (let this1 = this\<lparr> age := jsAdd (age this) deltaTime \<rparr>;
          p = position this1; v = velocity this1
      in this1\<lparr> position := \<lparr> vec_x = jsAdd (vec_x p) (jsMul (vec_x v) deltaTime),
                                 vec_y = jsAdd (vec_y p) (jsMul (vec_y v) deltaTime),
                                 vec_z = jsAdd (vec_z p) (jsMul (vec_z v) deltaTime) \<rparr> \<rparr>)"

definition GameObject3D_expired :: "'a GameObject3D_scheme \<Rightarrow> bool" where
  "GameObject3D_expired this = (case maxAge this of None \<Rightarrow> False | Some m \<Rightarrow> age this \<ge> m)"

definition GameObject3D_destroy :: "'a GameObject3D_scheme \<Rightarrow> 'a GameObject3D_scheme" where
  "GameObject3D_destroy this = this\<lparr> isAlive := False \<rparr>"

definition getRandomPowerUpType :: "world \<Rightarrow> PowerUpType \<times> world" where
  "getRandomPowerUpType w =
     (randomPowerUp w (randomCalls w), w\<lparr> randomCalls := Suc (randomCalls w) \<rparr>)"

subsection \<open>Balloon3D\<close>

text \<open>
  \<^verbatim>\<open>checkVortexChain()\<close>: with VORTEX_AMPLIFIER active, the other live balloons closer than
  8 are collected (\<open>nearbyBalloons\<close>); if there are any, the player gets the chain bonus
  and one callback per nearby balloon is scheduled.
\<close>

definition nearbyBalloons :: "nat \<Rightarrow> world \<Rightarrow> nat list" where
  "nearbyBalloons this w =
     (let chainRadius = 8
      in filter (\<lambda>balloon. balloon \<noteq> this \<and> isAlive (balloonObj w balloon) \<and>
                   distanceTo (position (balloonObj w this))
                              (position (balloonObj w balloon)) < chainRadius)
                (balloons w))"

definition Balloon3D_checkVortexChain :: "nat \<Rightarrow> world \<Rightarrow> world" where
  "Balloon3D_checkVortexChain this w =
     (case powerUpManager w of
        None \<Rightarrow> w
      | Some pm \<Rightarrow>
          if PowerUpManager_isActive (Some VORTEX_AMPLIFIER) pm then
            (if length (nearbyBalloons this w) > 0 then
               (let w1 = (case player w of
                            None \<Rightarrow> w
                          | Some p \<Rightarrow> w\<lparr> player := Some (snd (PlayerState_addVortexChain p)) \<rparr>)
                in w1\<lparr> timers := timers w1 @ nearbyBalloons this w \<rparr>)
             else w)
          else w)"

text \<open>
  \<^verbatim>\<open>Balloon3D.destroy()\<close>, guarded by \<^verbatim>\<open>if (!this.isAlive) return;\<close>. Its first two
  blocks are named here: the score award (\<^verbatim>\<open>if (window.player) { ... }\<close>) and the
  power-up trigger (\<^verbatim>\<open>if (this.type === 'powerup' && window.powerUpManager) { ... }\<close>).
\<close>

definition Balloon3D_awardScore :: "nat \<Rightarrow> world \<Rightarrow> world" where
  "Balloon3D_awardScore this w =
     (case player w of
        None \<Rightarrow> w
      | Some p \<Rightarrow>
          (let b = balloonObj w this;
               p1 = snd (PlayerState_addScore (balloon_points b) (Some (position b)) p);
               p2 = (if balloon_type b = Normal
                     then p1\<lparr> stats := (stats p1)\<lparr> balloonsPopped :=
                                balloonsPopped (stats p1) + 1 \<rparr> \<rparr>
                     else p1)
           in w\<lparr> player := Some p2 \<rparr>))"

definition Balloon3D_triggerPowerUp :: "nat \<Rightarrow> world \<Rightarrow> world" where
  "Balloon3D_triggerPowerUp this w =
     (if balloon_type (balloonObj w this) = PowerUp then
        (case powerUpManager w of
           None \<Rightarrow> w
         | Some pm \<Rightarrow>
             (let (powerUpType, w1) = getRandomPowerUpType w;
                  (pm', pl') = PowerUpManager_activate (dateNow w1) powerUpType (pm, player w1)
              in w1\<lparr> powerUpManager := Some pm', player := pl' \<rparr>))
      else w)"

definition Balloon3D_destroy :: "nat \<Rightarrow> world \<Rightarrow> world" where
  "Balloon3D_destroy this w =
     (if \<not> isAlive (balloonObj w this) then w
      else
        (let w1 = Balloon3D_awardScore this w;
             w2 = Balloon3D_triggerPowerUp this w1;
             w3 = Balloon3D_checkVortexChain this w2
         in w3\<lparr> balloonObj := (balloonObj w3)(this := GameObject3D_destroy (balloonObj w3 this)) \<rparr>))"

text \<open>\<^verbatim>\<open>Balloon3D.hit()\<close> returns whether the balloon was destroyed by this hit.\<close>

definition Balloon3D_hit :: "nat \<Rightarrow> world \<Rightarrow> bool \<times> world" where
  "Balloon3D_hit this w =
     (let b = balloonObj w this;
          w1 = w\<lparr> balloonObj := (balloonObj w)(this := b\<lparr> balloon_health := balloon_health b - 1 \<rparr>) \<rparr>
      in if balloon_health (balloonObj w1 this) \<le> 0
         then (True, Balloon3D_destroy this w1)
         else (False, w1))"

text \<open>The callback scheduled by \<^verbatim>\<open>checkVortexChain\<close>: \<^verbatim>\<open>if (balloon.isAlive) balloon.hit();\<close>\<close>

definition chainCallback :: "nat \<Rightarrow> world \<Rightarrow> world" where
  "chainCallback balloon w =
     (if isAlive (balloonObj w balloon) then snd (Balloon3D_hit balloon w) else w)"

definition Balloon3D_onMissed :: "world \<Rightarrow> world" where
  "Balloon3D_onMissed w =
     (case player w of
        None \<Rightarrow> w
      | Some p \<Rightarrow>
          (let (gameOver, p') = PlayerState_addMissed p;
               w1 = w\<lparr> player := Some p' \<rparr>
           in if gameOver then w1\<lparr> gameOverCalls := Suc (gameOverCalls w1) \<rparr> else w1))"

text \<open>
  \<^verbatim>\<open>Balloon3D.update(deltaTime)\<close>: \<^verbatim>\<open>super.update\<close>, then
  \<^verbatim>\<open>if (this.position.z > 20) { this.onMissed(); this.destroy(); }\<close>
\<close>

definition Balloon3D_update :: "real \<Rightarrow> nat \<Rightarrow> world \<Rightarrow> world" where
  "Balloon3D_update deltaTime this w =
     (let w1 = w\<lparr> balloonObj := (balloonObj w)(this := GameObject3D_advance deltaTime (balloonObj w this)) \<rparr>;
          w2 = (if GameObject3D_expired (balloonObj w1 this) then Balloon3D_destroy this w1 else w1)
      in if vec_z (position (balloonObj w2 this)) > 20
         then Balloon3D_destroy this (Balloon3D_onMissed w2)
         else w2)"

subsection \<open>EnemyDrone3D\<close>

definition EnemyDrone3D_destroy :: "nat \<Rightarrow> world \<Rightarrow> world" where
  "EnemyDrone3D_destroy this w =
     (if \<not> isAlive (enemyObj w this) then w
      else
        (let e = enemyObj w this;
             w1 = (case player w of
                     None \<Rightarrow> w
                   | Some p \<Rightarrow>
                       (let p1 = snd (PlayerState_addScore (enemy_points e) (Some (position e)) p);
                            p2 = p1\<lparr> stats := (stats p1)\<lparr> enemiesDestroyed :=
                                       enemiesDestroyed (stats p1) + 1 \<rparr> \<rparr>
                        in w\<lparr> player := Some p2 \<rparr>))
         in w1\<lparr> enemyObj := (enemyObj w1)(this := GameObject3D_destroy (enemyObj w1 this)) \<rparr>))"

definition EnemyDrone3D_hit :: "nat \<Rightarrow> world \<Rightarrow> bool \<times> world" where
  "EnemyDrone3D_hit this w =
     (let e = enemyObj w this;
          w1 = w\<lparr> enemyObj := (enemyObj w)(this := e\<lparr> enemy_health := enemy_health e - 1 \<rparr>) \<rparr>
      in if enemy_health (enemyObj w1 this) \<le> 0
         then (True, EnemyDrone3D_destroy this w1)
         else (False, w1))"

subsection \<open>SceneManager: collision resolution\<close>

definition removeObject :: "nat list \<Rightarrow> nat \<Rightarrow> nat list" where
  "removeObject array object =
     (let index = indexOf array object
      in if index \<noteq> -1 then splice1 index array else array)"

text \<open>
  \<^verbatim>\<open>array.forEach(callback)\<close> on an array that the callback may shorten: the length is
  read once, index \<open>k\<close> runs up to it, and an index the array no longer has is skipped.
  \<open>arr\<close> selects the array (\<open>enemies\<close> or \<open>balloons\<close>) in the current world.
\<close>

function forEachLive ::
  "(world \<Rightarrow> nat list) \<Rightarrow> (nat \<Rightarrow> world \<Rightarrow> world) \<Rightarrow> nat \<Rightarrow> nat \<Rightarrow> world \<Rightarrow> world" where
  "forEachLive arr callback k len w =
     (if k < len
      then (if k < length (arr w)
            then forEachLive arr callback (Suc k) len (callback (arr w ! k) w)
            else forEachLive arr callback (Suc k) len w)
      else w)"
  by pat_completeness auto
termination
  by (relation "measure (\<lambda>(arr, callback, k, len, w). len - k)") auto

declare forEachLive.simps [simp del]

definition forEach :: "(world \<Rightarrow> nat list) \<Rightarrow> (nat \<Rightarrow> world \<Rightarrow> world) \<Rightarrow> world \<Rightarrow> world" where
  "forEach arr callback w = forEachLive arr callback 0 (length (arr w)) w"

text \<open>The callback of \<^verbatim>\<open>this.enemies.forEach\<close> inside the loop over player projectiles.\<close>

definition hitTestEnemy :: "nat \<Rightarrow> nat \<Rightarrow> world \<Rightarrow> world" where
  "hitTestEnemy projectile enemy w =
     (if \<not> isAlive (enemyObj w enemy) then w
      else
        (let distance = distanceTo (position (projectileObj w projectile))
                                   (position (enemyObj w enemy));
             hitRadius = jsAdd (jsDiv (max (width (enemyObj w enemy))
                                           (height (enemyObj w enemy))) 2) 1
         in if distance \<le> hitRadius then
              (let (destroyed, w1) = EnemyDrone3D_hit enemy w;
                   w2 = (if destroyed then w1\<lparr> enemies := removeObject (enemies w1) enemy \<rparr> else w1);
                   w3 = w2\<lparr> projectiles := removeObject (projectiles w2) projectile \<rparr>
               in w3\<lparr> projectileObj := (projectileObj w3)
                         (projectile := GameObject3D_destroy (projectileObj w3 projectile)) \<rparr>)
            else w))"

text \<open>The callback of \<^verbatim>\<open>this.balloons.forEach\<close>.\<close>

definition hitTestBalloon :: "nat \<Rightarrow> nat \<Rightarrow> world \<Rightarrow> world" where
  "hitTestBalloon projectile balloon w =
     (if \<not> isAlive (balloonObj w balloon) then w
      else
        (let distance = distanceTo (position (projectileObj w projectile))
                                   (position (balloonObj w balloon));
             hitRadius = jsAdd (radius (balloonObj w balloon)) 0.5
         in if distance \<le> hitRadius then
              (let (destroyed, w1) = Balloon3D_hit balloon w;
                   w2 = (if destroyed then w1\<lparr> balloons := removeObject (balloons w1) balloon \<rparr> else w1);
                   w3 = w2\<lparr> projectiles := removeObject (projectiles w2) projectile \<rparr>
               in w3\<lparr> projectileObj := (projectileObj w3)
                         (projectile := GameObject3D_destroy (projectileObj w3 projectile)) \<rparr>)
            else w))"

text \<open>
  The callback of the loop over the player-owned projectiles. The liveness of the
  projectile is tested on entry and between the two inner loops, not inside them.
\<close>

definition playerProjectileStep :: "nat \<Rightarrow> world \<Rightarrow> world" where
  "playerProjectileStep projectile w =
     (if \<not> isAlive (projectileObj w projectile) then w
      else
        (let w1 = forEach enemies (hitTestEnemy projectile) w
         in if isAlive (projectileObj w1 projectile)
            then forEach balloons (hitTestBalloon projectile) w1
            else w1))"

text \<open>The callback of the loop over the enemy-owned projectiles.\<close>

definition enemyProjectileStep :: "nat \<Rightarrow> world \<Rightarrow> world" where
  "enemyProjectileStep projectile w =
     (if vec_z (position (projectileObj w projectile)) > 15 then
        (let w1 = (case player w of
                     None \<Rightarrow> w
                   | Some p \<Rightarrow>
                       (let (gameOver, p') = PlayerState_takeDamage (damage (projectileObj w projectile)) p;
                            w' = w\<lparr> player := Some p' \<rparr>
                        in if gameOver then w'\<lparr> gameOverCalls := Suc (gameOverCalls w') \<rparr> else w'));
             w2 = w1\<lparr> projectiles := removeObject (projectiles w1) projectile \<rparr>
         in w2\<lparr> projectileObj := (projectileObj w2)
                   (projectile := GameObject3D_destroy (projectileObj w2 projectile)) \<rparr>)
      else w)"

text \<open>
  \<^verbatim>\<open>handleCollisions()\<close>. \<^verbatim>\<open>this.projectiles.filter(...)\<close> builds a new array, so both
  outer loops run over a snapshot that the removals do not change.
\<close>

definition handleCollisions :: "world \<Rightarrow> world" where
  "handleCollisions w =
     (let playerShots = filter (\<lambda>p. owner (projectileObj w p) = PlayerOwner) (projectiles w);
          w1 = fold playerProjectileStep playerShots w;
          enemyShots = filter (\<lambda>p. owner (projectileObj w1 p) = EnemyOwner) (projectiles w1)
      in fold enemyProjectileStep enemyShots w1)"

subsection \<open>GameFlow and the main loop: wave progression\<close>

record WaveConfig =
  balloonsPerWave :: int
  enemiesPerWave :: int
  waveDuration :: int
  bossWaveInterval :: int

record GameFlow =
  gameRunning :: bool
  isPaused :: bool
  frameCount :: int
  waveStartTime :: int
  waveEnemiesSpawned :: int
  waveEnemiesRequired :: int
  waveConfig :: WaveConfig

definition GameFlow_constructor :: GameFlow where
  "GameFlow_constructor =
     \<lparr> gameRunning = False, isPaused = False, frameCount = 0, waveStartTime = 0,
       waveEnemiesSpawned = 0, waveEnemiesRequired = 10,
       waveConfig = \<lparr> balloonsPerWave = 50, enemiesPerWave = 10, waveDuration = 30000,
                      bossWaveInterval = 5 \<rparr> \<rparr>"

text \<open>\<^verbatim>\<open>start()\<close>; \<open>now\<close> is the reading of \<^verbatim>\<open>Date.now()\<close>, in milliseconds.\<close>

definition GameFlow_start :: "int \<Rightarrow> GameFlow \<Rightarrow> GameFlow" where
  "GameFlow_start now this =
     this\<lparr> gameRunning := True, isPaused := False, frameCount := 0, waveStartTime := now,
            waveEnemiesSpawned := 0 \<rparr>"

text \<open>
  What a frame of the main loop finds outside the state modelled here, in the order in
  which the frame asks for it:
  \<^item> \<open>performanceNow\<close>: \<^verbatim>\<open>performance.now()\<close> in \<^verbatim>\<open>gameLoop\<close>, in milliseconds;
  \<^item> \<open>dateNowCheck\<close>: \<^verbatim>\<open>Date.now()\<close> in \<^verbatim>\<open>checkWaveProgression\<close>;
  \<^item> \<open>dateNowAdvance\<close>: \<^verbatim>\<open>Date.now()\<close> in \<^verbatim>\<open>advanceWave\<close>, when \<^verbatim>\<open>checkWaveProgression\<close>
    calls it;
  \<^item> \<open>bossX\<close>, \<open>bossY\<close>: the random lateral position \<^verbatim>\<open>setupMovement\<close> gives an enemy drone
    constructed in this frame by \<^verbatim>\<open>spawnBoss\<close>;
  \<^item> \<open>sceneEffect\<close>: what \<^verbatim>\<open>powerUpManager.update()\<close>, \<^verbatim>\<open>inputHandler.update\<close>,
    \<^verbatim>\<open>sceneManager.update\<close> and \<^verbatim>\<open>handleSpawning()\<close> together do to \<^verbatim>\<open>window.player\<close> in this
    frame (shots, pops, kills, misses, damage);
  \<^item> \<open>enemiesLength\<close>: \<^verbatim>\<open>sceneManager.enemies.length\<close> when \<^verbatim>\<open>checkGameConditions\<close> reads it;
  \<^item> \<open>dateNowProgress\<close>: \<^verbatim>\<open>Date.now()\<close> in \<^verbatim>\<open>getWaveProgress\<close>;
  \<^item> \<open>dateNowFallback\<close>: \<^verbatim>\<open>Date.now()\<close> in \<^verbatim>\<open>advanceWave\<close>, when \<^verbatim>\<open>checkGameConditions\<close>
    calls it.
\<close>

record Frame =
  performanceNow :: real
  dateNowCheck :: int
  dateNowAdvance :: int
  bossX :: real
  bossY :: real
  sceneEffect :: "PlayerState \<Rightarrow> PlayerState"
  enemiesLength :: nat
  dateNowProgress :: int
  dateNowFallback :: int

text \<open>
  The wave methods act on the GameFlow (\<open>this\<close>) and on \<^verbatim>\<open>window.player\<close>.
  None of them takes the frame's \<^verbatim>\<open>deltaTime\<close>: \<^verbatim>\<open>GameFlow.update()\<close> has no parameter.
\<close>

definition GameFlow_shouldAdvanceWave :: "GameFlow \<times> PlayerState option \<Rightarrow> bool" where
  "GameFlow_shouldAdvanceWave = (\<lambda>(this, pl).
     (case pl of
        Some p \<Rightarrow> (let enemiesKilled = enemiesDestroyed (stats p)
                   in enemiesKilled \<ge> waveEnemiesRequired this)
      | None \<Rightarrow> False))"

text \<open>\<^verbatim>\<open>advanceWave()\<close>; \<open>now\<close> is its reading of \<^verbatim>\<open>Date.now()\<close>.\<close>

definition GameFlow_advanceWave ::
  "int \<Rightarrow> GameFlow \<times> PlayerState option \<Rightarrow> GameFlow \<times> PlayerState option" where
  "GameFlow_advanceWave now = (\<lambda>(this, pl).
     (let pl1 = (case pl of None \<Rightarrow> None | Some p \<Rightarrow> Some (PlayerState_setWave (wave p + 1) p));
          this1 = this\<lparr> waveStartTime := now \<rparr>;
          this2 = this1\<lparr> waveEnemiesSpawned := 0 \<rparr>;
          this3 = this2\<lparr> waveEnemiesRequired := waveEnemiesRequired this2 + 2 \<rparr>
      in (this3, pl1)))"

definition GameFlow_checkWaveProgression ::
  "Frame \<Rightarrow> GameFlow \<times> PlayerState option \<Rightarrow> GameFlow \<times> PlayerState option" where
  "GameFlow_checkWaveProgression f = (\<lambda>(this, pl).
     (let waveTime = dateNowCheck f - waveStartTime this
      in if waveTime > waveDuration (waveConfig this) \<or> GameFlow_shouldAdvanceWave (this, pl)
         then GameFlow_advanceWave (dateNowAdvance f) (this, pl)
         else (this, pl)))"

text \<open>
  The test \<^verbatim>\<open>a % b === 0\<close> on integers: the remainder of JavaScript takes the sign of
  \<open>a\<close>, and is zero exactly when \<open>b\<close> divides \<open>a\<close>; \<^verbatim>\<open>a % 0\<close> is NaN.
\<close>

definition remainderIsZero :: "int \<Rightarrow> int \<Rightarrow> bool" where
  "remainderIsZero a b = (b \<noteq> 0 \<and> a mod b = 0)"

text \<open>
  \<^verbatim>\<open>SceneManager.spawnBoss()\<close>, as far as \<^verbatim>\<open>window.player\<close> is concerned. The boss is a new
  EnemyDrone3D, alive, placed by \<^verbatim>\<open>setupMovement\<close> at depth -80, with \<^verbatim>\<open>points\<close> set to 500;
  \<^verbatim>\<open>boss.destroy()\<close> is then called on it (``recreate mesh with larger size''), and
  \<^verbatim>\<open>EnemyDrone3D.destroy\<close> on a live drone awards its points at its position and counts it
  among the destroyed enemies. The boss is pushed on \<^verbatim>\<open>enemies\<close> afterwards.
\<close>

definition spawnBoss :: "Frame \<Rightarrow> PlayerState option \<Rightarrow> PlayerState option" where
  "spawnBoss f pl =
     (case pl of
        None \<Rightarrow> None
      | Some p \<Rightarrow>
          (let bossPosition = \<lparr> vec_x = bossX f, vec_y = bossY f, vec_z = - 80 \<rparr>;
               p1 = snd (PlayerState_addScore 500 (Some bossPosition) p)
           in Some (p1\<lparr> stats := (stats p1)\<lparr> enemiesDestroyed :=
                                    enemiesDestroyed (stats p1) + 1 \<rparr> \<rparr>)))"

text \<open>
  \<^verbatim>\<open>checkLevelProgression()\<close> calls \<^verbatim>\<open>triggerBossWave()\<close>, which calls \<^verbatim>\<open>spawnBoss()\<close>
  (\<^verbatim>\<open>window.sceneManager\<close> is set), in every frame in which the wave number is a positive
  multiple of \<^verbatim>\<open>bossWaveInterval\<close>.
\<close>

definition GameFlow_checkLevelProgression ::
  "Frame \<Rightarrow> GameFlow \<times> PlayerState option \<Rightarrow> GameFlow \<times> PlayerState option" where
  "GameFlow_checkLevelProgression f = (\<lambda>(this, pl).
     (case pl of
        None \<Rightarrow> (this, pl)
      | Some p \<Rightarrow>
          if wave p > 0 \<and> remainderIsZero (wave p) (bossWaveInterval (waveConfig this))
          then (this, spawnBoss f pl)
          else (this, pl)))"

text \<open>\<^verbatim>\<open>update()\<close>, guarded by \<^verbatim>\<open>if (!this.gameRunning || this.isPaused) return;\<close>\<close>

definition GameFlow_update ::
  "Frame \<Rightarrow> GameFlow \<times> PlayerState option \<Rightarrow> GameFlow \<times> PlayerState option" where
  "GameFlow_update f = (\<lambda>(this, pl).
     if \<not> gameRunning this \<or> isPaused this then (this, pl)
     else
       (let this1 = this\<lparr> frameCount := frameCount this + 1 \<rparr>
        in GameFlow_checkLevelProgression f (GameFlow_checkWaveProgression f (this1, pl))))"

text \<open>
  \<^verbatim>\<open>getWaveProgress() { const waveTime = Date.now() - this.waveStartTime;
  return Math.min(1, waveTime / this.waveConfig.waveDuration); }\<close> and
  \<^verbatim>\<open>isBossWave() { return window.player && window.player.wave % bossWaveInterval === 0; }\<close>,
  which is falsy without a player.
\<close>

definition GameFlow_getWaveProgress :: "int \<Rightarrow> GameFlow \<Rightarrow> real" where
  "GameFlow_getWaveProgress now this =
     (let waveTime = now - waveStartTime this
      in min 1 (jsDiv (real_of_int waveTime) (real_of_int (waveDuration (waveConfig this)))))"

definition GameFlow_isBossWave :: "GameFlow \<times> PlayerState option \<Rightarrow> bool" where
  "GameFlow_isBossWave = (\<lambda>(this, pl).
     (case pl of
        None \<Rightarrow> False
      | Some p \<Rightarrow> remainderIsZero (wave p) (bossWaveInterval (waveConfig this))))"

text \<open>
  The GameController, as far as the main loop goes. Its own \<^verbatim>\<open>gameRunning\<close>, \<^verbatim>\<open>isPaused\<close>
  and \<^verbatim>\<open>deltaTime\<close> carry the prefix \<open>gc_\<close> here: the first two are not the flags of the
  GameFlow, which \<^verbatim>\<open>pause()\<close> and \<^verbatim>\<open>levelComplete()\<close> leave alone.
\<close>

record GameController =
  gc_gameRunning :: bool
  gc_isPaused :: bool
  lastFrameTime :: real
  gc_deltaTime :: real
  gameFlow :: GameFlow

text \<open>\<^verbatim>\<open>levelComplete()\<close> pauses the controller (and shows the level modal).\<close>

definition levelComplete :: "GameController \<Rightarrow> GameController" where
  "levelComplete this = this\<lparr> gc_isPaused := True \<rparr>"

text \<open>
  \<^verbatim>\<open>checkGameConditions()\<close>: level completion in a boss wave without enemies, then the
  automatic wave progression: \<^verbatim>\<open>if (!this.gameFlow.isBossWave() &&
  this.gameFlow.getWaveProgress() >= 1) this.gameFlow.advanceWave();\<close>
\<close>

definition checkGameConditions ::
  "Frame \<Rightarrow> GameController \<times> PlayerState option \<Rightarrow> GameController \<times> PlayerState option" where
  "checkGameConditions f = (\<lambda>(this, pl).
     (let this1 = (if GameFlow_isBossWave (gameFlow this, pl) \<and> enemiesLength f = 0
                   then levelComplete this else this)
      in if \<not> GameFlow_isBossWave (gameFlow this1, pl) \<and>
            GameFlow_getWaveProgress (dateNowProgress f) (gameFlow this1) \<ge> 1
         then (let (gf, pl1) = GameFlow_advanceWave (dateNowFallback f) (gameFlow this1, pl)
               in (this1\<lparr> gameFlow := gf \<rparr>, pl1))
         else (this1, pl)))"

text \<open>
  \<^verbatim>\<open>updateGame()\<close>: \<^verbatim>\<open>gameFlow.update()\<close>, the updates of power-ups, input and scene with the
  spawning (\<open>sceneEffect\<close>), then \<^verbatim>\<open>checkGameConditions()\<close>. A frame in which the scene ends
  the game (\<^verbatim>\<open>gameOver()\<close>) is the last of its run and is not modelled.
\<close>

definition updateGame ::
  "Frame \<Rightarrow> GameController \<times> PlayerState option \<Rightarrow> GameController \<times> PlayerState option" where
  "updateGame f = (\<lambda>(this, pl).
     (let (gf, pl1) = GameFlow_update f (gameFlow this, pl);
          this1 = this\<lparr> gameFlow := gf \<rparr>;
          pl2 = map_option (sceneEffect f) pl1
      in checkGameConditions f (this1, pl2)))"

text \<open>
  \<^verbatim>\<open>gameLoop()\<close>, one frame: \<^verbatim>\<open>deltaTime = (currentTime - lastFrameTime) / 1000\<close>, capped by
  \<^verbatim>\<open>Math.min(deltaTime, 1/30)\<close>, then \<^verbatim>\<open>updateGame()\<close> unless the controller is paused. A
  run of frames during which no event handler (pause, resume, continue, restart) fires
  is a fold of \<open>gameLoop\<close>.
\<close>

definition gameLoop ::
  "Frame \<Rightarrow> GameController \<times> PlayerState option \<Rightarrow> GameController \<times> PlayerState option" where
  "gameLoop f = (\<lambda>(this, pl).
     if \<not> gc_gameRunning this then (this, pl)
     else
       (let currentTime = performanceNow f;
            this1 = this\<lparr> gc_deltaTime := jsDiv (jsSub currentTime (lastFrameTime this)) 1000 \<rparr>;
            this2 = this1\<lparr> lastFrameTime := currentTime \<rparr>;
            this3 = this2\<lparr> gc_deltaTime := min (gc_deltaTime this2) (jsDiv 1 30) \<rparr>
        in if \<not> gc_isPaused this3 then updateGame f (this3, pl) else (this3, pl)))"


subsection \<open>Notions used to state the properties\<close>

text \<open>
  The two factors of a score event. \<open>depthStage\<close> is the value \<^verbatim>\<open>addScore\<close> holds after its
  depth block: the base points without a position (or at depth 0), else the floor of
  \<^verbatim>\<open>points * depthMultiplier\<close>. \<open>comboMultiplierOf c\<close> is \<^verbatim>\<open>1 + (c * 0.1)\<close>.
\<close>

definition depthStage :: "int \<Rightarrow> vec3 option \<Rightarrow> int" where
  "depthStage p position' =
     (case position' of
        None \<Rightarrow> p
      | Some pos \<Rightarrow>
          if vec_z pos = 0 then p
          else \<lfloor>jsMul (real_of_int p) (getDepthBonus (vec_z pos) 200)\<rfloor>)"

definition comboMultiplierOf :: "int \<Rightarrow> real" where
  "comboMultiplierOf c = jsAdd 1 (jsMul (real_of_int c) (fl (1 / 10)))"

text \<open>
  The pool invariant: no reference occurs twice in the free list and the active list
  taken together, and every reference in them has been allocated.
\<close>

definition poolInv :: "'o ObjectPool \<Rightarrow> bool" where
  "poolInv this = (distinct (pool this @ active this) \<and>
                   list_all (\<lambda>r. r < allocated this) (pool this @ active this))"

text \<open>
  What can be done to a Target from outside: a hit or a destroy call; a run of such calls
  is a fold of \<open>applyTargetOp\<close>.
\<close>

datatype TargetOp = Hit | Destroy

fun applyTargetOp :: "nat \<Rightarrow> TargetOp \<Rightarrow> world \<Rightarrow> world" where
  "applyTargetOp r Hit w = snd (Balloon3D_hit r w)"
| "applyTargetOp r Destroy w = Balloon3D_destroy r w"

text \<open>The world with the hit-points of balloon \<open>r\<close> set to \<open>h\<close>, everything else as it is.\<close>

definition withHealth :: "nat \<Rightarrow> int \<Rightarrow> world \<Rightarrow> world" where
  "withHealth r h w =
     w\<lparr> balloonObj := (balloonObj w)(r := (balloonObj w r)\<lparr> balloon_health := h \<rparr>) \<rparr>"


subsection \<open>Example scenes\<close>

text \<open>
  A balloon on the axis at depth \<open>z\<close>, moving towards the camera at 12 units per second; a
  standard enemy drone (3 wide, 2 high, 2 hit-points) at depth -30; a player projectile
  at depth -30 on the axis.
\<close>

definition balloonAt :: "real \<Rightarrow> BalloonType \<Rightarrow> int \<Rightarrow> int \<Rightarrow> Balloon3D" where
  "balloonAt z ty pts hp =
     \<lparr> position = \<lparr> vec_x = 0, vec_y = 0, vec_z = z \<rparr>,
       velocity = \<lparr> vec_x = 0, vec_y = 0, vec_z = 12 \<rparr>,
       isAlive = True, age = 9, maxAge = None,
       radius = 3, balloon_points = pts, balloon_health = hp, balloon_type = ty \<rparr>"

definition droneAt :: "real \<Rightarrow> real \<Rightarrow> EnemyDrone3D" where
  "droneAt x y =
     \<lparr> position = \<lparr> vec_x = x, vec_y = y, vec_z = -30 \<rparr>,
       velocity = \<lparr> vec_x = 0, vec_y = 0, vec_z = 8 \<rparr>,
       isAlive = True, age = 1, maxAge = None,
       width = 3, height = 2, depth = 4, enemy_health = 2, enemy_points = 75 \<rparr>"

definition playerShot :: Projectile3D where
  "playerShot =
     \<lparr> position = \<lparr> vec_x = 0, vec_y = 0, vec_z = -30 \<rparr>,
       velocity = \<lparr> vec_x = 0, vec_y = 0, vec_z = -30 \<rparr>,
       isAlive = True, age = 1, maxAge = Some 3, owner = PlayerOwner, damage = 1 \<rparr>"

text \<open>
  A scene with the given player, active power-up and arrays; enemy 0 is the drone at
  \<open>(1, 0, -30)\<close>, every other enemy reference the drone at \<open>(0, 1, -30)\<close>, every projectile
  reference the player projectile.
\<close>

definition sceneWith ::
  "PlayerState \<Rightarrow> PowerUpType option \<Rightarrow> nat list \<Rightarrow> (nat \<Rightarrow> Balloon3D) \<Rightarrow> nat list \<Rightarrow> nat list
     \<Rightarrow> world" where
  "sceneWith p act bs bobj es ps =
     \<lparr> player = Some p, powerUpManager = Some \<lparr> activePowerUp = act, endTime = 10000 \<rparr>,
       balloons = bs, enemies = es, projectiles = ps,
       balloonObj = bobj,
       enemyObj = (\<lambda>i. if i = 0 then droneAt 1 0 else droneAt 0 1),
       projectileObj = (\<lambda>_. playerShot),
       timers = [], gameOverCalls = 0, dateNow = 0,
       randomPowerUp = (\<lambda>_. SHIELD), randomCalls = 0 \<rparr>"

text \<open>One player projectile within hit radius (2.5) of two live drones, at distance 1 of each.\<close>

definition twoDronesWorld :: world where
  "twoDronesWorld =
     sceneWith PlayerState_constructor None [] (\<lambda>_. balloonAt (-50) Normal 50 1) [0, 1] [0]"

text \<open>
  One live balloon at depth 19.75: a frame of 1/32 s takes it to depth 20.125, past the
  near boundary. All three numbers are doubles.
\<close>

definition missWorld ::
  "PlayerState \<Rightarrow> PowerUpType option \<Rightarrow> BalloonType \<Rightarrow> int \<Rightarrow> int \<Rightarrow> world" where
  "missWorld p act ty pts hp = sceneWith p act [0] (\<lambda>_. balloonAt (79 / 4) ty pts hp) [] []"

text \<open>A player under an active shield, with a combo of 3.\<close>

definition shieldedPlayer :: PlayerState where
  "shieldedPlayer = PlayerState_constructor
     \<lparr> isShielded := True, stats := (stats PlayerState_constructor)\<lparr> currentCombo := 3 \<rparr> \<rparr>"

text \<open>A new player who has built a combo of 5.\<close>

definition comboPlayer :: PlayerState where
  "comboPlayer = PlayerState_constructor
     \<lparr> stats := (stats PlayerState_constructor)\<lparr> currentCombo := 5 \<rparr> \<rparr>"

text \<open>
  A frame in which every clock reads the same millisecond \<open>ms\<close>, the scene leaves the
  player as it is and holds no enemy; and the game as \<^verbatim>\<open>startGame()\<close> leaves it when all
  clocks read 0: controller and GameFlow running, wave 1 started at 0.
\<close>

definition frameAt :: "int \<Rightarrow> Frame" where
  "frameAt ms =
     \<lparr> performanceNow = real_of_int ms, dateNowCheck = ms, dateNowAdvance = ms,
       bossX = 0, bossY = 0, sceneEffect = (\<lambda>q. q), enemiesLength = 0,
       dateNowProgress = ms, dateNowFallback = ms \<rparr>"

definition startedGame :: "GameController \<times> PlayerState option" where
  "startedGame =
     (\<lparr> gc_gameRunning = True, gc_isPaused = False, lastFrameTime = 0, gc_deltaTime = 0,
        gameFlow = GameFlow_start 0 GameFlow_constructor \<rparr>,
      Some PlayerState_constructor)"

section \<open>Properties\<close>

subsection \<open>Rounding to the nearest double\<close>

text \<open>
  The rounding is monotone and odd, leaves alone every integer of magnitude at most
  \<open>2^53\<close> and every such integer scaled by a non-negative power of two, and the floor of a
  double is a double. \<open>fl_eval\<close> evaluates it at a number whose binary exponent is known.
\<close>

lemma pow2_powr: "pow2 e = 2 powr real_of_int e"
  by (simp add: pow2_def powr_real_of_int inverse_eq_divide)

lemma pow2_pos: "0 < pow2 e"
  by (simp add: pow2_powr)

lemma pow2_mono: "a \<le> b \<Longrightarrow> pow2 a \<le> pow2 b"
  by (simp add: pow2_powr)

lemma pow2_add: "pow2 (a + b) = pow2 a * pow2 b"
  by (simp add: pow2_powr powr_add)

lemma exponent_iff:
  "0 < x \<Longrightarrow> \<lfloor>log 2 x\<rfloor> = e \<longleftrightarrow> pow2 e \<le> x \<and> x < pow2 (e + 1)"
  by (simp add: floor_log_eq_powr_iff pow2_powr)

lemma fl_eval:
  "pow2 e \<le> \<bar>x\<bar> \<Longrightarrow> \<bar>x\<bar> < pow2 (e + 1) \<Longrightarrow> - 1022 \<le> e \<Longrightarrow> fl x = roundAt e x"
proof -
  assume lo: "pow2 e \<le> \<bar>x\<bar>" and hi: "\<bar>x\<bar> < pow2 (e + 1)" and e: "- 1022 \<le> e"
  from lo pow2_pos [of e] have pos: "0 < \<bar>x\<bar>" by linarith
  then have "x \<noteq> 0" by simp
  moreover have "\<lfloor>log 2 \<bar>x\<bar>\<rfloor> = e" using pos lo hi by (simp add: exponent_iff)
  ultimately show ?thesis using e by (simp add: fl_def max_def)
qed

lemma roundHalfEven_of_int: "roundHalfEven (of_int k) = k"
  by (simp add: roundHalfEven_def)

lemma roundHalfEven_floor: "\<lfloor>y\<rfloor> \<le> roundHalfEven y \<and> roundHalfEven y \<le> \<lfloor>y\<rfloor> + 1"
  by (simp add: roundHalfEven_def Let_def)

lemma roundHalfEven_mono: "a \<le> b \<Longrightarrow> roundHalfEven a \<le> roundHalfEven b"
proof -
  assume ab: "a \<le> b"
  then have fl: "\<lfloor>a\<rfloor> \<le> \<lfloor>b\<rfloor>" by (rule floor_mono)
  show ?thesis
  proof (cases "\<lfloor>a\<rfloor> = \<lfloor>b\<rfloor>")
    case True
    with ab show ?thesis
      by (auto simp: roundHalfEven_def Let_def)
  next
    case False
    with fl have "\<lfloor>a\<rfloor> + 1 \<le> \<lfloor>b\<rfloor>" by simp
    with roundHalfEven_floor [of a] roundHalfEven_floor [of b] show ?thesis by linarith
  qed
qed

lemma roundHalfEven_ge: "of_int k \<le> y \<Longrightarrow> k \<le> roundHalfEven y"
  using roundHalfEven_mono [of "of_int k" y] by (simp add: roundHalfEven_of_int)

lemma roundHalfEven_le: "y \<le> of_int k \<Longrightarrow> roundHalfEven y \<le> k"
  using roundHalfEven_mono [of y "of_int k"] by (simp add: roundHalfEven_of_int)

lemma roundHalfEven_minus: "roundHalfEven (- y) = - roundHalfEven y"
proof (cases "y = of_int \<lfloor>y\<rfloor>")
  case True
  then have "- y = of_int (- \<lfloor>y\<rfloor>)" by simp
  then have "roundHalfEven (- y) = - \<lfloor>y\<rfloor>" by (simp only: roundHalfEven_of_int)
  moreover have "roundHalfEven y = \<lfloor>y\<rfloor>" using True roundHalfEven_of_int [of "\<lfloor>y\<rfloor>"] by simp
  ultimately show ?thesis by simp
next
  case False
  then have c: "\<lceil>y\<rceil> = \<lfloor>y\<rfloor> + 1" by (simp add: ceiling_altdef)
  have f: "\<lfloor>- y\<rfloor> = - \<lfloor>y\<rfloor> - 1" using c by (simp add: floor_minus)
  have r: "of_int \<lfloor>y\<rfloor> < y" "y < of_int \<lfloor>y\<rfloor> + 1" using False by linarith+
  show ?thesis
    unfolding roundHalfEven_def Let_def f using r by auto
qed

lemma roundAt_minus: "roundAt e (- x) = - roundAt e x"
  by (simp add: roundAt_def roundHalfEven_minus)

lemma roundAt_upper:
  assumes hi: "x < pow2 (e + 1)"
  shows "roundAt e x \<le> pow2 (e + 1)"
proof -
  let ?p = "pow2 (e - 52)"
  have p: "0 < ?p" by (rule pow2_pos)
  have c53: "pow2 53 = of_int (2 ^ 53)" by (simp add: pow2_def)
  have "pow2 (e + 1) = pow2 53 * ?p" using pow2_add [of 53 "e - 52"] by (simp add: add.commute)
  then have e2: "pow2 (e + 1) = of_int (2 ^ 53) * ?p" by (simp only: c53)
  have "x / ?p \<le> of_int (2 ^ 53)" using hi p by (simp add: e2 pos_divide_le_eq)
  then have b: "roundHalfEven (x / ?p) \<le> 2 ^ 53" by (rule roundHalfEven_le)
  have "of_int (roundHalfEven (x / ?p)) * ?p \<le> of_int (2 ^ 53) * ?p"
    using b p by (intro mult_right_mono) simp_all
  then show ?thesis by (simp add: roundAt_def e2)
qed

lemma roundAt_lower:
  assumes lo: "pow2 e \<le> x"
  shows "pow2 e \<le> roundAt e x"
proof -
  let ?p = "pow2 (e - 52)"
  have p: "0 < ?p" by (rule pow2_pos)
  have c52: "pow2 52 = of_int (2 ^ 52)" by (simp add: pow2_def)
  have "pow2 e = pow2 52 * ?p" using pow2_add [of 52 "e - 52"] by simp
  then have e1: "pow2 e = of_int (2 ^ 52) * ?p" by (simp only: c52)
  have "of_int (2 ^ 52) \<le> x / ?p" using lo p by (simp add: e1 pos_le_divide_eq)
  then have a: "2 ^ 52 \<le> roundHalfEven (x / ?p)" by (rule roundHalfEven_ge)
  have "of_int (2 ^ 52) * ?p \<le> of_int (roundHalfEven (x / ?p)) * ?p"
    using a p by (intro mult_right_mono) simp_all
  then show ?thesis by (simp add: roundAt_def e1)
qed

lemma roundAt_nonneg: "0 \<le> x \<Longrightarrow> 0 \<le> roundAt e x"
proof -
  assume x: "0 \<le> x"
  let ?p = "pow2 (e - 52)"
  have p: "0 < ?p" by (rule pow2_pos)
  have "of_int 0 \<le> x / ?p" using x p by simp
  then have "0 \<le> roundHalfEven (x / ?p)" by (rule roundHalfEven_ge)
  then show ?thesis using p by (simp add: roundAt_def)
qed

lemma roundAt_mono: "x \<le> y \<Longrightarrow> roundAt e x \<le> roundAt e y"
proof -
  assume xy: "x \<le> y"
  let ?p = "pow2 (e - 52)"
  have p: "0 < ?p" by (rule pow2_pos)
  have "x / ?p \<le> y / ?p" using xy p by (simp add: divide_right_mono)
  then have "roundHalfEven (x / ?p) \<le> roundHalfEven (y / ?p)" by (rule roundHalfEven_mono)
  then have "of_int (roundHalfEven (x / ?p)) * ?p \<le> of_int (roundHalfEven (y / ?p)) * ?p"
    using p by (intro mult_right_mono) simp_all
  then show ?thesis by (simp add: roundAt_def)
qed

lemma fl_zero: "fl 0 = 0"
  by (simp add: fl_def)

lemma fl_minus: "fl (- x) = - fl x"
  by (simp add: fl_def roundAt_minus)

lemma fl_nonneg: "0 \<le> x \<Longrightarrow> 0 \<le> fl x"
  by (simp add: fl_def roundAt_nonneg)

lemma fl_nonpos: "x \<le> 0 \<Longrightarrow> fl x \<le> 0"
  using fl_nonneg [of "- x"] by (simp add: fl_minus)

lemma exponent_bounds:
  "0 < x \<Longrightarrow> pow2 \<lfloor>log 2 x\<rfloor> \<le> x \<and> x < pow2 (\<lfloor>log 2 x\<rfloor> + 1)"
  using exponent_iff [of x "\<lfloor>log 2 x\<rfloor>"] by simp

lemma fl_mono_pos: "0 < x \<Longrightarrow> x \<le> y \<Longrightarrow> fl x \<le> fl y"
proof -
  assume x: "0 < x" and xy: "x \<le> y"
  then have y: "0 < y" by simp
  let ?lx = "\<lfloor>log 2 x\<rfloor>" and ?ly = "\<lfloor>log 2 y\<rfloor>"
  let ?ex = "max ?lx (- 1022)" and ?ey = "max ?ly (- 1022)"
  have le: "?lx \<le> ?ly" using x y xy by (intro floor_mono) simp
  have fx: "fl x = roundAt ?ex x" and fy: "fl y = roundAt ?ey y"
    using x y by (simp_all add: fl_def)
  show ?thesis
  proof (cases "?ex = ?ey")
    case True
    then show ?thesis unfolding fx fy using roundAt_mono [OF xy, of ?ey] by simp
  next
    case False
    have lt: "?ex + 1 \<le> ?ey" using le False by linarith
    have ey: "?ey = ?ly" using le False by linarith
    have "x < pow2 (?lx + 1)" using exponent_bounds [OF x] by simp
    also have "\<dots> \<le> pow2 (?ex + 1)" by (rule pow2_mono) simp
    finally have "roundAt ?ex x \<le> pow2 (?ex + 1)" by (rule roundAt_upper)
    also have "\<dots> \<le> pow2 ?ey" using lt by (rule pow2_mono)
    also have "\<dots> \<le> roundAt ?ey y"
      unfolding ey using exponent_bounds [OF y] by (intro roundAt_lower) simp
    finally show ?thesis unfolding fx fy .
  qed
qed

lemma fl_mono: "x \<le> y \<Longrightarrow> fl x \<le> fl y"
proof -
  assume xy: "x \<le> y"
  consider "0 < x" | "x \<le> 0" "0 \<le> y" | "y < 0" by linarith
  then show ?thesis
  proof cases
    case 1
    then show ?thesis using xy by (rule fl_mono_pos)
  next
    case 2
    with fl_nonpos [of x] fl_nonneg [of y] show ?thesis by linarith
  next
    case 3
    then have "0 < - y" "- y \<le> - x" using xy by simp_all
    then have "fl (- y) \<le> fl (- x)" by (rule fl_mono_pos)
    then show ?thesis by (simp add: fl_minus)
  qed
qed

lemma fl_exact_pos:
  assumes m: "0 < m" "m < 2 ^ 53" and k: "0 \<le> k"
  shows "fl (of_int m * pow2 k) = of_int m * pow2 k"
proof -
  let ?em = "\<lfloor>log 2 (of_int m)\<rfloor>"
  have mpos: "(0::real) < of_int m" using m by simp
  have em: "pow2 ?em \<le> of_int m" "of_int m < pow2 (?em + 1)"
    using exponent_bounds [OF mpos] by simp_all
  have "pow2 ?em < pow2 53"
  proof -
    have "(of_int m :: real) < of_int (2 ^ 53)" using m(2) by (simp only: of_int_less_iff)
    then show ?thesis using em(1) by (simp add: pow2_def)
  qed
  then have em52: "?em \<le> 52"
    using pow2_mono [of 53 ?em] by (cases "?em \<le> 52") auto
  have em0: "0 \<le> ?em"
  proof (rule ccontr)
    assume "\<not> 0 \<le> ?em"
    then have "?em + 1 \<le> 0" by linarith
    then have "pow2 (?em + 1) \<le> pow2 0" by (rule pow2_mono)
    with em(2) have "(of_int m :: real) < 1" by (simp add: pow2_def)
    with m(1) show False by simp
  qed
  let ?x = "of_int m * pow2 k"
  have lo: "pow2 (?em + k) \<le> \<bar>?x\<bar>"
    using em(1) pow2_pos [of k] m(1) by (simp add: pow2_add abs_mult)
  have hi: "\<bar>?x\<bar> < pow2 (?em + k + 1)"
  proof -
    have "of_int m * pow2 k < pow2 (?em + 1) * pow2 k"
      using em(2) pow2_pos [of k] by (simp add: mult_less_cancel_right)
    moreover have "?em + k + 1 = (?em + 1) + k" by simp
    ultimately show ?thesis using m(1) pow2_pos [of k]
      by (simp only: pow2_add) (simp add: abs_mult)
  qed
  have "- 1022 \<le> ?em + k" using em0 k by linarith
  with lo hi have fl: "fl ?x = roundAt (?em + k) ?x" by (rule fl_eval)
  have xs: "?x = of_int (m * 2 ^ nat (52 - ?em)) * pow2 (?em + k - 52)"
  proof -
    have "pow2 k = pow2 (52 - ?em) * pow2 (?em + k - 52)"
      using pow2_add [of "52 - ?em" "?em + k - 52"] by simp
    moreover have "pow2 (52 - ?em) = 2 ^ nat (52 - ?em)" using em52 by (simp add: pow2_def)
    ultimately have "pow2 k = 2 ^ nat (52 - ?em) * pow2 (?em + k - 52)" by simp
    then show ?thesis by simp
  qed
  have sc: "?x / pow2 (?em + k - 52) = of_int (m * 2 ^ nat (52 - ?em))"
    using pow2_pos [of "?em + k - 52"] by (subst xs) simp
  have "roundAt (?em + k) ?x = of_int (m * 2 ^ nat (52 - ?em)) * pow2 (?em + k - 52)"
    unfolding roundAt_def sc roundHalfEven_of_int ..
  also have "\<dots> = ?x" by (rule xs [symmetric])
  finally show ?thesis using fl by simp
qed

lemma fl_exact:
  assumes m: "\<bar>m\<bar> \<le> 2 ^ 53" and k: "0 \<le> k"
  shows "fl (of_int m * pow2 k) = of_int m * pow2 k"
proof -
  have pos: "fl (of_int n * pow2 k) = of_int n * pow2 k" if n: "0 < n" "n \<le> 2 ^ 53" for n
  proof (cases "n = 2 ^ 53")
    case False
    with n have "n < 2 ^ 53" by simp
    with n(1) show ?thesis using k by (intro fl_exact_pos)
  next
    case True
    have "fl (of_int 1 * pow2 (k + 53)) = of_int 1 * pow2 (k + 53)"
      using k by (intro fl_exact_pos) simp_all
    moreover have "pow2 (k + 53) = of_int (2 ^ 53) * pow2 k"
      using pow2_add [of 53 k] by (simp add: pow2_def add.commute)
    ultimately show ?thesis using True by simp
  qed
  consider "m = 0" | "0 < m" | "m < 0" by linarith
  then show ?thesis
  proof cases
    case 1
    then show ?thesis by (simp add: fl_zero)
  next
    case 2
    with m show ?thesis by (intro pos) simp_all
  next
    case 3
    with m have "fl (of_int (- m) * pow2 k) = of_int (- m) * pow2 k" by (intro pos) simp_all
    then show ?thesis by (simp add: fl_minus)
  qed
qed

lemma fl_of_int: "\<bar>n\<bar> \<le> 2 ^ 53 \<Longrightarrow> fl (of_int n) = of_int n"
  using fl_exact [of n 0] by (simp add: pow2_def)

lemma fl_floor_fl: "fl (of_int \<lfloor>fl x\<rfloor>) = of_int \<lfloor>fl x\<rfloor>"
proof (cases "x = 0")
  case True
  then show ?thesis by (simp add: fl_zero)
next
  case False
  let ?l = "\<lfloor>log 2 \<bar>x\<bar>\<rfloor>"
  let ?e = "max ?l (- 1022)"
  let ?q = "?e - 52"
  let ?M = "roundHalfEven (x / pow2 ?q)"
  have p: "0 < pow2 ?q" by (rule pow2_pos)
  have y: "fl x = of_int ?M * pow2 ?q" using False by (simp add: fl_def roundAt_def)
  have ax: "\<bar>x\<bar> < pow2 (?e + 1)"
  proof -
    have "\<bar>x\<bar> < pow2 (?l + 1)" using exponent_bounds [of "\<bar>x\<bar>"] False by simp
    also have "\<dots> \<le> pow2 (?e + 1)" by (rule pow2_mono) simp
    finally show ?thesis .
  qed
  have e2: "pow2 (?e + 1) = of_int (2 ^ 53) * pow2 ?q"
    using pow2_add [of 53 ?q] by (simp add: pow2_def add.commute)
  have "x / pow2 ?q \<le> of_int (2 ^ 53)" "of_int (- (2 ^ 53)) \<le> x / pow2 ?q"
    using ax p unfolding e2 by (simp_all add: pos_divide_le_eq pos_le_divide_eq abs_less_iff)
  then have M: "\<bar>?M\<bar> \<le> 2 ^ 53"
    using roundHalfEven_le [of "x / pow2 ?q" "2 ^ 53"] roundHalfEven_ge [of "- (2 ^ 53)" "x / pow2 ?q"]
    by linarith
  show ?thesis
  proof (cases "0 \<le> ?q")
    case True
    then have "pow2 ?q = of_int (2 ^ nat ?q)" by (simp add: pow2_def)
    then have "fl x = of_int (?M * 2 ^ nat ?q)" unfolding y by simp
    then have A: "of_int \<lfloor>fl x\<rfloor> = fl x" by (simp only: floor_of_int)
    have B: "fl (fl x) = fl x" unfolding y using M True by (rule fl_exact)
    show ?thesis unfolding A by (rule B)
  next
    case False
    then have "?q \<le> - 1" by linarith
    then have "pow2 ?q \<le> pow2 (- 1)" by (rule pow2_mono)
    then have ph: "pow2 ?q \<le> 1 / 2" by (simp add: pow2_def)
    have "\<bar>fl x\<bar> = \<bar>of_int ?M\<bar> * pow2 ?q" unfolding y using p by (simp add: abs_mult)
    also have "\<dots> \<le> of_int (2 ^ 53) * (1 / 2)"
    proof (rule mult_mono)
      have "real_of_int \<bar>?M\<bar> \<le> real_of_int (2 ^ 53)" using M by (simp only: of_int_le_iff)
      then show "\<bar>real_of_int ?M\<bar> \<le> real_of_int (2 ^ 53)" by simp
      show "pow2 ?q \<le> 1 / 2" by (rule ph)
      show "0 \<le> real_of_int (2 ^ 53)" by simp
      show "0 \<le> pow2 ?q" using p by simp
    qed
    finally have "\<bar>fl x\<bar> \<le> of_int (2 ^ 52)" by simp
    then have "fl x \<le> of_int (2 ^ 52)" "of_int (- (2 ^ 52)) \<le> fl x" by (simp_all add: abs_le_iff)
    then have "\<lfloor>fl x\<rfloor> \<le> 2 ^ 52" "- (2 ^ 52) \<le> \<lfloor>fl x\<rfloor>"
      by (simp_all only: floor_le_iff le_floor_iff)
    moreover have "(2::int) ^ 52 \<le> 2 ^ 53" by simp
    ultimately have "\<bar>\<lfloor>fl x\<rfloor>\<bar> \<le> 2 ^ 53" by linarith
    then show ?thesis by (rule fl_of_int)
  qed
qed

lemma fl_one: "fl 1 = 1"
  using fl_of_int [of 1] by simp

lemma fl_numeral: "(numeral k :: int) \<le> 2 ^ 53 \<Longrightarrow> fl (numeral k) = numeral k"
  using fl_of_int [of "numeral k"] by simp

lemma fl_neg_numeral: "(numeral k :: int) \<le> 2 ^ 53 \<Longrightarrow> fl (- numeral k) = - numeral k"
  using fl_of_int [of "- numeral k"] by simp

lemmas fl_at =
  fl_eval [of "- 7"] fl_eval [of "- 6"] fl_eval [of "- 5"] fl_eval [of "- 4"] fl_eval [of "- 3"]
  fl_eval [of "- 2"] fl_eval [of "- 1"] fl_eval [of 0] fl_eval [of 1] fl_eval [of 2]
  fl_eval [of 3] fl_eval [of 4] fl_eval [of 5] fl_eval [of 6] fl_eval [of 7] fl_eval [of 8]

lemmas fl_compute = fl_zero fl_at roundAt_def roundHalfEven_def pow2_def Let_def

subsection \<open>Scoring\<close>

lemma getDepthBonus_zero: "getDepthBonus 0 m = 1"
  by (simp add: getDepthBonus_def jsDiv_def jsMul_def jsAdd_def fl_zero fl_one)

lemma getDepthBonus_mono:
  assumes m: "0 < maxDepth" and ab: "\<bar>a\<bar> \<le> \<bar>b\<bar>"
  shows "getDepthBonus a maxDepth \<le> getDepthBonus b maxDepth"
proof -
  have "\<bar>a\<bar> / maxDepth \<le> \<bar>b\<bar> / maxDepth" using m ab by (simp add: divide_right_mono)
  then have "fl (\<bar>a\<bar> / maxDepth) \<le> fl (\<bar>b\<bar> / maxDepth)" by (rule fl_mono)
  then have "fl (fl (\<bar>a\<bar> / maxDepth) * 2) \<le> fl (fl (\<bar>b\<bar> / maxDepth) * 2)"
    by (intro fl_mono) simp
  then have "1 + min (fl (fl (\<bar>a\<bar> / maxDepth) * 2)) 3 \<le> 1 + min (fl (fl (\<bar>b\<bar> / maxDepth) * 2)) 3"
    by linarith
  then show ?thesis
    unfolding getDepthBonus_def Let_def jsDiv_def jsMul_def jsAdd_def by (rule fl_mono)
qed

lemma getDepthBonus_range:
  assumes m: "0 < maxDepth"
  shows "1 \<le> getDepthBonus z maxDepth \<and> getDepthBonus z maxDepth \<le> 4"
proof -
  let ?m = "min (fl (fl (\<bar>z\<bar> / maxDepth) * 2)) 3"
  have "0 \<le> fl (\<bar>z\<bar> / maxDepth)" using m by (intro fl_nonneg) simp
  then have "0 \<le> fl (fl (\<bar>z\<bar> / maxDepth) * 2)" by (intro fl_nonneg) simp
  then have a: "1 \<le> 1 + ?m" and b: "1 + ?m \<le> 4" by simp_all
  from a have "fl 1 \<le> fl (1 + ?m)" by (rule fl_mono)
  moreover from b have "fl (1 + ?m) \<le> fl 4" by (rule fl_mono)
  ultimately show ?thesis
    by (simp add: getDepthBonus_def Let_def jsDiv_def jsMul_def jsAdd_def fl_one fl_numeral)
qed

lemma comboMultiplierOf_zero: "comboMultiplierOf 0 = 1"
  by (simp add: comboMultiplierOf_def jsAdd_def jsMul_def fl_zero fl_one)

lemma addScore_points:
  "fst (PlayerState_addScore p position' this) =
     \<lfloor>jsMul (real_of_int (depthStage p position')) (comboMultiplierOf (currentCombo (stats this)))\<rfloor>"
  by (cases position')
     (simp_all add: PlayerState_addScore_def depthStage_def comboMultiplierOf_def Let_def)

lemma addScore_score:
  "score (snd (PlayerState_addScore p position' this)) =
     score this + fst (PlayerState_addScore p position' this)"
  by (cases position') (simp_all add: PlayerState_addScore_def Let_def)

lemma addScore_combo:
  "currentCombo (stats (snd (PlayerState_addScore p position' this))) =
     currentCombo (stats this) + 1"
  by (cases position') (simp_all add: PlayerState_addScore_def Let_def)

text \<open>At combo multiplier 1 the second floor returns the depth stage as it is.\<close>

lemma depthStage_exact:
  "\<bar>p\<bar> \<le> 2 ^ 53 \<or> (\<exists>pos. position' = Some pos \<and> vec_z pos \<noteq> 0) \<Longrightarrow>
     \<lfloor>jsMul (real_of_int (depthStage p position')) 1\<rfloor> = depthStage p position'"
proof (cases "\<exists>pos. position' = Some pos \<and> vec_z pos \<noteq> 0")
  case True
  then obtain pos where pos: "position' = Some pos" "vec_z pos \<noteq> 0" by blast
  have "fl (real_of_int \<lfloor>fl (real_of_int p * getDepthBonus (vec_z pos) 200)\<rfloor>)
          = real_of_int \<lfloor>fl (real_of_int p * getDepthBonus (vec_z pos) 200)\<rfloor>"
    by (rule fl_floor_fl)
  then show ?thesis using pos by (simp add: depthStage_def jsMul_def)
next
  case False
  assume "\<bar>p\<bar> \<le> 2 ^ 53 \<or> (\<exists>pos. position' = Some pos \<and> vec_z pos \<noteq> 0)"
  with False have "\<bar>p\<bar> \<le> 2 ^ 53" by blast
  then have "fl (real_of_int p) = real_of_int p" by (rule fl_of_int)
  moreover have "depthStage p position' = p"
    using False by (cases position') (auto simp: depthStage_def)
  ultimately show ?thesis by (simp add: jsMul_def)
qed

text \<open>The numbers of a 50-point score event at depth 3 with a combo of 5.\<close>

lemma getDepthBonus_3: "getDepthBonus 3 200 = 4638707616191611 / 4503599627370496"
  by (simp add: getDepthBonus_def jsDiv_def jsMul_def jsAdd_def fl_compute)

lemma depthStage_50_3: "depthStage 50 (Some \<lparr>vec_x = 0, vec_y = 0, vec_z = 3\<rparr>) = 51"
  by (simp add: depthStage_def getDepthBonus_3 jsMul_def fl_compute)

lemma comboMultiplierOf_5: "comboMultiplierOf 5 = 3 / 2"
  by (simp add: comboMultiplierOf_def jsAdd_def jsMul_def fl_compute)

lemma comboPlayer_fields: "currentCombo (stats comboPlayer) = 5" "score comboPlayer = 0"
  by (simp_all add: comboPlayer_def PlayerState_constructor_def)

text \<open>
  Where the rounding decides the score. 90 points at a combo of 4: the double nearest to
  1.4 lies below 1.4 and the product rounds to a double below 126, so the event adds 125,
  where exact arithmetic gives 126. 50 points at depth -82 add 90, where exact
  arithmetic gives \<open>floor (50 * 1.82) = 91\<close>. 100 points at depth \<open>21 - 2^(-48)\<close>, reached from
  the double next below 20 by a step of \<open>32 * (1 / 32)\<close>, add 121, where exact arithmetic
  gives 120.
\<close>

lemma addScore_rounds_down:
  "fst (PlayerState_addScore 90 None
          (PlayerState_constructor
             \<lparr> stats := (stats PlayerState_constructor)\<lparr> currentCombo := 4 \<rparr> \<rparr>)) = 125"
  "\<lfloor>(90::real) * (1 + 4 * (1 / 10))\<rfloor> = 126"
  "fst (PlayerState_addScore 50 (Some \<lparr>vec_x = 0, vec_y = 0, vec_z = - 82\<rparr>)
          PlayerState_constructor) = 90"
  "\<lfloor>(50::real) * (1 + 82 / 200 * 2)\<rfloor> = 91"
proof -
  have c4: "comboMultiplierOf 4 = 3152519739159347 / 2251799813685248"
    by (simp add: comboMultiplierOf_def jsAdd_def jsMul_def fl_compute)
  have d: "getDepthBonus (- 82) 200 = 4098275660907151 / 2251799813685248"
    by (simp add: getDepthBonus_def jsDiv_def jsMul_def jsAdd_def fl_compute)
  show "fst (PlayerState_addScore 90 None
          (PlayerState_constructor
             \<lparr> stats := (stats PlayerState_constructor)\<lparr> currentCombo := 4 \<rparr> \<rparr>)) = 125"
    by (simp add: addScore_points depthStage_def PlayerState_constructor_def c4)
       (simp add: jsMul_def fl_compute)
  have s: "depthStage 50 (Some \<lparr>vec_x = 0, vec_y = 0, vec_z = - 82\<rparr>) = 90"
    by (simp add: depthStage_def d) (simp add: jsMul_def fl_compute)
  show "fst (PlayerState_addScore 50 (Some \<lparr>vec_x = 0, vec_y = 0, vec_z = - 82\<rparr>)
          PlayerState_constructor) = 90"
    by (simp add: addScore_points s PlayerState_constructor_def comboMultiplierOf_zero)
       (simp add: jsMul_def fl_compute)
  show "\<lfloor>(90::real) * (1 + 4 * (1 / 10))\<rfloor> = 126" "\<lfloor>(50::real) * (1 + 82 / 200 * 2)\<rfloor> = 91"
    by simp_all
qed

lemma addScore_rounds_up:
  "jsAdd (5629499534213119 / 281474976710656) (jsMul 32 (1 / 32))
     = 5910974510923775 / 281474976710656"
  "\<lfloor>jsMul 100 (getDepthBonus (5910974510923775 / 281474976710656) 200)\<rfloor> = 121"
  "\<lfloor>(100::real) * (1 + (5910974510923775 / 281474976710656) / 200 * 2)\<rfloor> = 120"
proof -
  have a: "jsMul 32 (1 / 32) = 1" by (simp add: jsMul_def fl_one)
  show "jsAdd (5629499534213119 / 281474976710656) (jsMul 32 (1 / 32))
     = 5910974510923775 / 281474976710656"
    unfolding a by (simp add: jsAdd_def fl_compute)
  have d: "getDepthBonus (5910974510923775 / 281474976710656) 200
             = 1362338887279575 / 1125899906842624"
    by (simp add: getDepthBonus_def jsDiv_def jsMul_def jsAdd_def fl_compute)
  show "\<lfloor>jsMul 100 (getDepthBonus (5910974510923775 / 281474976710656) 200)\<rfloor> = 121"
    unfolding d by (simp add: jsMul_def fl_compute)
  show "\<lfloor>(100::real) * (1 + (5910974510923775 / 281474976710656) / 200 * 2)\<rfloor> = 120"
    by simp
qed

text \<open>
  C3 (as amended). Every product and sum being rounded to a double, a score event with
  base points \<open>p\<close> and combo length \<open>c\<close> adds \<open>floor (s * (1 + c * 0.1))\<close> to the score, where
  the depth stage \<open>s\<close> is \<open>p\<close> itself when the event has no position (or depth 0) and
  \<open>floor (p * d)\<close> for the depth multiplier \<open>d\<close> otherwise: the depth stage is floored before
  the combo multiplier is applied. After a combo break the combo multiplier is exactly 1
  and, for base points that a double holds exactly, the next score event adds the depth
  stage.
\<close>

theorem addScore_floors_twice:
  "score (snd (PlayerState_addScore p position' this)) - score this =
     \<lfloor>jsMul (real_of_int (depthStage p position')) (comboMultiplierOf (currentCombo (stats this)))\<rfloor>
   \<and> comboMultiplierOf (currentCombo (stats (PlayerState_breakCombo this))) = 1
   \<and> (\<bar>p\<bar> \<le> 2 ^ 53 \<longrightarrow>
        score (snd (PlayerState_addScore p position' (PlayerState_breakCombo this))) - score this
          = depthStage p position')"
proof -
  have b: "currentCombo (stats (PlayerState_breakCombo this)) = 0"
    "score (PlayerState_breakCombo this) = score this"
    by (simp_all add: PlayerState_breakCombo_def)
  have "score (snd (PlayerState_addScore p position' (PlayerState_breakCombo this))) - score this
          = depthStage p position'" if "\<bar>p\<bar> \<le> 2 ^ 53"
    using that depthStage_exact [of p position']
    by (simp add: addScore_score addScore_points b comboMultiplierOf_zero)
  then show ?thesis
    by (simp add: addScore_score addScore_points b comboMultiplierOf_zero)
qed

theorem addScore_floors_twice_witness:
  "\<bar>50::int\<bar> \<le> 2 ^ 53 \<and>
   score (snd (PlayerState_addScore 50 (Some \<lparr>vec_x = 0, vec_y = 0, vec_z = 3\<rparr>) comboPlayer))
     - score comboPlayer = 76 \<and>
   score (snd (PlayerState_addScore 50 (Some \<lparr>vec_x = 0, vec_y = 0, vec_z = 3\<rparr>)
                 (PlayerState_breakCombo comboPlayer)))
     - score comboPlayer = 51"
proof -
  have "\<lfloor>jsMul (real_of_int 51) (3 / 2)\<rfloor> = 76"
    by (simp add: jsMul_def fl_compute)
  with addScore_floors_twice [of 50 "Some \<lparr>vec_x = 0, vec_y = 0, vec_z = 3\<rparr>" comboPlayer]
  show ?thesis
    by (simp add: depthStage_50_3 comboMultiplierOf_5 comboPlayer_fields)
qed

text \<open>
  C3 as stated fails: 50 points at depth 3 (multiplier 1.03) with combo length 5 add
  \<open>floor (floor 51.5 * 1.5) = 76\<close>, while the single floor of the product
  \<open>50 * 1.5 * 1.03 = 77.25\<close> is 77, computed in doubles and computed exactly.
\<close>

theorem addScore_single_floor_counterexample:
  "score (snd (PlayerState_addScore 50 (Some \<lparr>vec_x = 0, vec_y = 0, vec_z = 3\<rparr>) comboPlayer))
     - score comboPlayer = 76 \<and>
   \<lfloor>jsMul (jsMul 50 (comboMultiplierOf 5)) (getDepthBonus 3 200)\<rfloor> = 77 \<and>
   \<lfloor>(50::real) * (1 + 5 * (1 / 10)) * (1 + 3 / 200 * 2)\<rfloor> = 77"
proof -
  have "\<lfloor>jsMul (real_of_int 51) (3 / 2)\<rfloor> = 76"
    by (simp add: jsMul_def fl_compute)
  then have "score (snd (PlayerState_addScore 50 (Some \<lparr>vec_x = 0, vec_y = 0, vec_z = 3\<rparr>) comboPlayer))
     - score comboPlayer = 76"
    by (simp add: addScore_score addScore_points depthStage_50_3 comboMultiplierOf_5
          comboPlayer_fields)
  moreover have "\<lfloor>jsMul (jsMul 50 (comboMultiplierOf 5)) (getDepthBonus 3 200)\<rfloor> = 77"
    by (simp add: comboMultiplierOf_5 getDepthBonus_3 jsMul_def fl_compute)
  moreover have "\<lfloor>(50::real) * (1 + 5 * (1 / 10)) * (1 + 3 / 200 * 2)\<rfloor> = 77"
    by simp
  ultimately show ?thesis by blast
qed

text \<open>
  C4. For a positive maximum depth the depth bonus lies between 1 and 4 and does not
  decrease when \<open>\<bar>z\<bar>\<close> grows; depth 0 gives 1, and depth 200 with maximum depth 200 gives 3.
\<close>

theorem getDepthBonus_range_monotone:
  "0 < maxDepth \<Longrightarrow>
     1 \<le> getDepthBonus z maxDepth \<and> getDepthBonus z maxDepth \<le> 4 \<and>
     (\<forall>z'. \<bar>z\<bar> \<le> \<bar>z'\<bar> \<longrightarrow> getDepthBonus z maxDepth \<le> getDepthBonus z' maxDepth) \<and>
     getDepthBonus 0 maxDepth = 1 \<and> getDepthBonus 200 200 = 3"
proof -
  assume m: "0 < maxDepth"
  have "getDepthBonus 200 200 = 3"
    by (simp add: getDepthBonus_def jsDiv_def jsMul_def jsAdd_def fl_one fl_numeral)
  then show ?thesis
    using getDepthBonus_range [OF m, of z] getDepthBonus_mono [OF m] getDepthBonus_zero
    by simp
qed

theorem getDepthBonus_range_monotone_witness:
  "(0::real) < 200 \<and> 1 \<le> getDepthBonus 50 200 \<and> getDepthBonus 50 200 \<le> 4 \<and>
   \<bar>50::real\<bar> \<le> \<bar>-300\<bar> \<and> getDepthBonus 50 200 \<le> getDepthBonus (-300) 200 \<and>
   getDepthBonus 0 200 = 1 \<and> getDepthBonus 200 200 = 3"
  using getDepthBonus_range_monotone [of 200 50] by simp

subsection \<open>PlayerState\<close>

text \<open>
  C8 (as amended). \<^verbatim>\<open>reset()\<close> restores every field to its freshly constructed value
  except \<^verbatim>\<open>stats.maxCombo\<close>, which keeps its value; the constants maxHealth, maxShields
  and MAX_MISSED are not assigned.
\<close>

theorem reset_keeps_maxCombo:
  "PlayerState_reset this =
     PlayerState_constructor
       \<lparr> maxHealth := maxHealth this, maxShields := maxShields this,
         MAX_MISSED := MAX_MISSED this,
         stats := (stats PlayerState_constructor)\<lparr> maxCombo := maxCombo (stats this) \<rparr> \<rparr>"
  by (simp add: PlayerState_reset_def PlayerState_constructor_def Let_def)

text \<open>
  C8 as stated fails: after one score event \<^verbatim>\<open>maxCombo\<close> is 1, and the reset player
  differs from a new one.
\<close>

theorem reset_not_fresh_counterexample:
  "PlayerState_reset (snd (PlayerState_addScore 50 None PlayerState_constructor))
     \<noteq> PlayerState_constructor"
  by (simp add: PlayerState_reset_def PlayerState_addScore_def PlayerState_constructor_def Let_def)

subsection \<open>ObjectPool\<close>

lemma poolInv_create:
  "poolInv this \<Longrightarrow> ObjectPool_create this = (obj, this1) \<Longrightarrow>
     obj \<notin> set (pool this @ active this) \<and> pool this1 = pool this \<and>
     active this1 = active this \<and> allocated this1 = Suc obj \<and> obj = allocated this"
  by (auto simp: poolInv_def ObjectPool_create_def Let_def list_all_iff)

lemma poolInv_prepopulate: "poolInv this \<Longrightarrow> poolInv (ObjectPool_prepopulate n this)"
proof (induction n arbitrary: this)
  case 0
  then show ?case by simp
next
  case (Suc n)
  obtain obj this1 where c: "ObjectPool_create this = (obj, this1)"
    by (cases "ObjectPool_create this")
  from poolInv_create [OF Suc.prems c]
  have "poolInv (this1\<lparr> pool := pool this1 @ [obj] \<rparr>)"
    using Suc.prems by (auto simp: poolInv_def list_all_iff less_Suc_eq)
  then show ?case using c Suc.IH by simp
qed

lemma poolInv_constructor: "poolInv (ObjectPool_constructor c r n b)"
  unfolding ObjectPool_constructor_def
  by (rule poolInv_prepopulate) (simp add: poolInv_def)

lemma poolInv_acquire: "poolInv this \<Longrightarrow> poolInv (snd (ObjectPool_acquire this))"
proof (cases "pool this" rule: rev_cases)
  case Nil
  assume inv: "poolInv this"
  obtain obj this1 where c: "ObjectPool_create this = (obj, this1)"
    by (cases "ObjectPool_create this")
  from poolInv_create [OF inv c] inv Nil c show ?thesis
    by (auto simp: ObjectPool_acquire_def poolInv_def list_all_iff less_Suc_eq)
next
  case (snoc ys y)
  assume inv: "poolInv this"
  with snoc show ?thesis
    by (auto simp: ObjectPool_acquire_def poolInv_def list_all_iff)
qed

lemma poolInv_release: "poolInv this \<Longrightarrow> poolInv (ObjectPool_release obj this)"
proof (cases "obj \<in> set (active this)")
  case False
  assume "poolInv this"
  with False show ?thesis by (simp add: ObjectPool_release_active)
next
  case True
  assume inv: "poolInv this"
  then have d: "distinct (active this)" by (simp add: poolInv_def)
  from inv True d show ?thesis
    by (auto simp: ObjectPool_release_active poolInv_def list_all_iff)
qed

lemma poolInv_releaseAll: "poolInv this \<Longrightarrow> poolInv (ObjectPool_releaseAll this)"
proof (induction this rule: ObjectPool_releaseAll.induct)
  case (1 this)
  show ?case
  proof (cases "0 < length (active this)")
    case True
    then show ?thesis
      using 1 by (subst ObjectPool_releaseAll.simps) (simp add: poolInv_release)
  next
    case False
    then show ?thesis using 1 by (subst ObjectPool_releaseAll.simps) simp
  qed
qed

lemma poolInv_apply: "poolInv this \<Longrightarrow> poolInv (ObjectPool_apply opn this)"
  by (cases opn) (simp_all add: poolInv_acquire poolInv_release poolInv_releaseAll)

lemma poolInv_fold: "poolInv this \<Longrightarrow> poolInv (fold ObjectPool_apply ops this)"
  by (induction ops arbitrary: this) (simp_all add: poolInv_apply)

text \<open>
  C5. Releasing an object that is not in the active list changes nothing (the model has
  no failing branch there: \<^verbatim>\<open>resetFn\<close> is not even called), and whatever acquires,
  releases and releaseAlls a client performs on a new pool, no object occurs twice in
  the free list.
\<close>

theorem release_inactive_noop:
  "(obj \<notin> set (active this) \<longrightarrow> ObjectPool_release obj this = this) \<and>
   distinct (pool (fold ObjectPool_apply ops
                     (ObjectPool_constructor createFn' resetFn' initialSize blank)))"
proof -
  have "poolInv (fold ObjectPool_apply ops
                   (ObjectPool_constructor createFn' resetFn' initialSize blank))"
    by (rule poolInv_fold) (rule poolInv_constructor)
  then show ?thesis by (simp add: ObjectPool_release_active poolInv_def)
qed

theorem release_inactive_noop_witness:
  "1 \<notin> set (active (ObjectPool_constructor (\<lambda>n. False) (\<lambda>b. True) (Suc (Suc 0)) False)) \<and>
   ObjectPool_release 1 (ObjectPool_constructor (\<lambda>n. False) (\<lambda>b. True) (Suc (Suc 0)) False)
     = ObjectPool_constructor (\<lambda>n. False) (\<lambda>b. True) (Suc (Suc 0)) False \<and>
   distinct (pool (fold ObjectPool_apply [Acquire, Release 1, Release 1]
                     (ObjectPool_constructor (\<lambda>n. False) (\<lambda>b. True) (Suc (Suc 0)) False)))"
proof -
  have "active (ObjectPool_constructor (\<lambda>n. False) (\<lambda>b. True) (Suc (Suc 0)) False) = []"
    by (simp add: ObjectPool_constructor_def ObjectPool_create_def Let_def)
  then show ?thesis
    using release_inactive_noop
            [of 1 "ObjectPool_constructor (\<lambda>n. False) (\<lambda>b. True) (Suc (Suc 0)) False"
                "[Acquire, Release 1, Release 1]" "\<lambda>n. False" "\<lambda>b. True" "Suc (Suc 0)" False]
    by simp
qed

subsection \<open>Target: hits and destruction\<close>

lemma destroy_dead: "\<not> isAlive (balloonObj w r) \<Longrightarrow> Balloon3D_destroy r w = w"
  by (simp add: Balloon3D_destroy_def)

lemma awardScore_balloonObj: "balloonObj (Balloon3D_awardScore r w) = balloonObj w"
  by (simp add: Balloon3D_awardScore_def Let_def split: option.splits)

lemma triggerPowerUp_balloonObj: "balloonObj (Balloon3D_triggerPowerUp r w) = balloonObj w"
proof (cases "powerUpManager w")
  case None
  then show ?thesis by (simp add: Balloon3D_triggerPowerUp_def)
next
  case (Some pm)
  obtain pm' pl' where
    "PowerUpManager_activate (dateNow w) (randomPowerUp w (randomCalls w)) (pm, player w) = (pm', pl')"
    by (cases "PowerUpManager_activate (dateNow w) (randomPowerUp w (randomCalls w)) (pm, player w)")
  with Some show ?thesis
    by (simp add: Balloon3D_triggerPowerUp_def getRandomPowerUpType_def)
qed

lemma checkVortexChain_balloonObj:
  "balloonObj (Balloon3D_checkVortexChain r w) = balloonObj w"
  by (simp add: Balloon3D_checkVortexChain_def Let_def split: option.splits)

lemma destroy_balloonObj:
  "isAlive (balloonObj w r) \<Longrightarrow>
     balloonObj (Balloon3D_destroy r w) = (balloonObj w)(r := (balloonObj w r)\<lparr> isAlive := False \<rparr>)"
  by (simp add: Balloon3D_destroy_def Let_def GameObject3D_destroy_def
        awardScore_balloonObj triggerPowerUp_balloonObj checkVortexChain_balloonObj)

lemma destroy_not_alive: "\<not> isAlive (balloonObj (Balloon3D_destroy r w) r)"
  by (cases "isAlive (balloonObj w r)") (simp_all add: destroy_balloonObj destroy_dead)

lemma destroy_idem: "Balloon3D_destroy r (Balloon3D_destroy r w) = Balloon3D_destroy r w"
  by (rule destroy_dead) (rule destroy_not_alive)

lemma destroy_health:
  "balloon_health (balloonObj (Balloon3D_destroy r w) r) = balloon_health (balloonObj w r)"
  by (cases "isAlive (balloonObj w r)") (simp_all add: destroy_balloonObj destroy_dead)

lemma hit_health:
  "balloon_health (balloonObj (snd (Balloon3D_hit r w)) r) = balloon_health (balloonObj w r) - 1"
  by (simp add: Balloon3D_hit_def Let_def destroy_health)

lemma hit_dead:
  "\<not> isAlive (balloonObj w r) \<Longrightarrow>
     snd (Balloon3D_hit r w) =
       w\<lparr> balloonObj := (balloonObj w)
            (r := (balloonObj w r)\<lparr> balloon_health := balloon_health (balloonObj w r) - 1 \<rparr>) \<rparr>"
  by (simp add: Balloon3D_hit_def Let_def destroy_dead)

text \<open>What destroy does to the rest of the world does not depend on the hit-points.\<close>

lemma awardScore_withHealth:
  "Balloon3D_awardScore r (withHealth r h w) = withHealth r h (Balloon3D_awardScore r w)"
  by (simp add: Balloon3D_awardScore_def withHealth_def Let_def split: option.splits)

lemma triggerPowerUp_withHealth:
  "Balloon3D_triggerPowerUp r (withHealth r h w) = withHealth r h (Balloon3D_triggerPowerUp r w)"
proof (cases "powerUpManager w")
  case None
  then show ?thesis by (simp add: Balloon3D_triggerPowerUp_def withHealth_def)
next
  case (Some pm)
  obtain pm' pl' where
    "PowerUpManager_activate (dateNow w) (randomPowerUp w (randomCalls w)) (pm, player w) = (pm', pl')"
    by (cases "PowerUpManager_activate (dateNow w) (randomPowerUp w (randomCalls w)) (pm, player w)")
  with Some show ?thesis
    by (simp add: Balloon3D_triggerPowerUp_def getRandomPowerUpType_def withHealth_def)
qed

lemma nearbyBalloons_withHealth: "nearbyBalloons r (withHealth r h w) = nearbyBalloons r w"
  by (simp add: nearbyBalloons_def withHealth_def Let_def cong: conj_cong)

lemma checkVortexChain_withHealth:
  "Balloon3D_checkVortexChain r (withHealth r h w) = withHealth r h (Balloon3D_checkVortexChain r w)"
proof -
  have "nearbyBalloons r (withHealth r h w) = nearbyBalloons r w"
    by (rule nearbyBalloons_withHealth)
  moreover have "powerUpManager (withHealth r h w) = powerUpManager w"
    and "player (withHealth r h w) = player w"
    by (simp_all add: withHealth_def)
  ultimately show ?thesis
    by (simp add: Balloon3D_checkVortexChain_def Let_def split: option.splits)
       (simp add: withHealth_def)
qed

lemma destroy_withHealth_player:
  "player (Balloon3D_destroy r (withHealth r h w)) = player (Balloon3D_destroy r w)"
proof (cases "isAlive (balloonObj w r)")
  case False
  then show ?thesis by (simp add: Balloon3D_destroy_def withHealth_def)
next
  case True
  then have "isAlive (balloonObj (withHealth r h w) r)" by (simp add: withHealth_def)
  with True show ?thesis
    by (simp add: Balloon3D_destroy_def Let_def awardScore_withHealth triggerPowerUp_withHealth
          checkVortexChain_withHealth)
       (simp add: withHealth_def)
qed

lemma hit_player:
  "player (snd (Balloon3D_hit r w)) =
     (if isAlive (balloonObj w r) \<and> balloon_health (balloonObj w r) \<le> 1
      then player (Balloon3D_destroy r w) else player w)"
proof -
  have w1: "w\<lparr> balloonObj := (balloonObj w)
                (r := (balloonObj w r)\<lparr> balloon_health := balloon_health (balloonObj w r) - 1 \<rparr>) \<rparr>
          = withHealth r (balloon_health (balloonObj w r) - 1) w"
    by (simp add: withHealth_def)
  show ?thesis
  proof (cases "isAlive (balloonObj w r)")
    case True
    then show ?thesis
      unfolding Balloon3D_hit_def Let_def w1
      by (simp add: destroy_withHealth_player) (simp add: withHealth_def)
  next
    case False
    then show ?thesis by (simp add: hit_dead)
  qed
qed

lemma dead_ops:
  "\<not> isAlive (balloonObj w r) \<Longrightarrow>
     player (fold (applyTargetOp r) ops w) = player w \<and>
     powerUpManager (fold (applyTargetOp r) ops w) = powerUpManager w \<and>
     timers (fold (applyTargetOp r) ops w) = timers w \<and>
     \<not> isAlive (balloonObj (fold (applyTargetOp r) ops w) r)"
proof (induction ops arbitrary: w)
  case Nil
  then show ?case by simp
next
  case (Cons opn ops)
  let ?w' = "applyTargetOp r opn w"
  have step: "player ?w' = player w \<and> powerUpManager ?w' = powerUpManager w \<and>
              timers ?w' = timers w \<and> \<not> isAlive (balloonObj ?w' r)"
    using Cons.prems by (cases opn) (simp_all add: hit_dead destroy_dead)
  with Cons.IH [of ?w'] show ?case by simp
qed

lemma hit_alive:
  "isAlive (balloonObj (snd (Balloon3D_hit r w)) r) =
     (isAlive (balloonObj w r) \<and> 1 < balloon_health (balloonObj w r))"
proof (cases "balloon_health (balloonObj w r) \<le> 1")
  case True
  then show ?thesis by (simp add: Balloon3D_hit_def Let_def destroy_not_alive)
next
  case False
  then show ?thesis by (simp add: Balloon3D_hit_def Let_def)
qed

text \<open>
  Whatever run of hits and destroy calls a Target receives, the player ends either as it
  was or as one destroy call would have left it at the start of the run.
\<close>

lemma ops_award_once:
  "player (fold (applyTargetOp r) ops w) = player w \<or>
   player (fold (applyTargetOp r) ops w) = player (Balloon3D_destroy r w)"
proof (induction ops arbitrary: w)
  case Nil
  show ?case by simp
next
  case (Cons opn ops)
  show ?case
  proof (cases opn)
    case Destroy
    have "player (fold (applyTargetOp r) ops (Balloon3D_destroy r w))
            = player (Balloon3D_destroy r w)"
      using dead_ops [OF destroy_not_alive] by blast
    with Destroy show ?thesis by simp
  next
    case Hit
    let ?w' = "snd (Balloon3D_hit r w)"
    show ?thesis
    proof (cases "isAlive (balloonObj ?w' r)")
      case False
      then have "player (fold (applyTargetOp r) ops ?w') = player ?w'"
        using dead_ops by blast
      moreover have "player ?w' = player w \<or> player ?w' = player (Balloon3D_destroy r w)"
        by (simp add: hit_player)
      ultimately show ?thesis using Hit by auto
    next
      case True
      then have al: "isAlive (balloonObj w r)" "1 < balloon_health (balloonObj w r)"
        by (simp_all add: hit_alive)
      then have w': "?w' = withHealth r (balloon_health (balloonObj w r) - 1) w"
        by (simp add: Balloon3D_hit_def Let_def withHealth_def)
      have pw: "player ?w' = player w" using al by (simp add: hit_player)
      have pd: "player (Balloon3D_destroy r ?w') = player (Balloon3D_destroy r w)"
        unfolding w' by (rule destroy_withHealth_player)
      from Cons.IH [of ?w'] Hit pw pd show ?thesis by auto
    qed
  qed
qed

text \<open>
  C1. Every hit lowers the hit-points of the Target by exactly 1 and reports destruction
  exactly when they reach 0. After a hit the Target is alive exactly when it was alive and
  had more than 1 hit-point: the hit that takes a live Target to 0 destroys it. A hit
  changes the player state only when it takes a live Target to 0, and then by exactly
  what one destroy call does. After a destroy call the Target is not alive and a second
  destroy call changes nothing. Over any run of hits and destroy calls on a Target, from
  any state, the player ends either unchanged or exactly as one destroy call leaves it;
  after a destroy call no such run changes the player at all: score award, statistics and
  combo increment happen at most once.
\<close>

theorem target_destroyed_once:
  "balloon_health (balloonObj (snd (Balloon3D_hit r w)) r) = balloon_health (balloonObj w r) - 1 \<and>
   fst (Balloon3D_hit r w) = (balloon_health (balloonObj w r) \<le> 1) \<and>
   isAlive (balloonObj (snd (Balloon3D_hit r w)) r) =
     (isAlive (balloonObj w r) \<and> 1 < balloon_health (balloonObj w r)) \<and>
   player (snd (Balloon3D_hit r w)) =
     (if isAlive (balloonObj w r) \<and> balloon_health (balloonObj w r) \<le> 1
      then player (Balloon3D_destroy r w) else player w) \<and>
   \<not> isAlive (balloonObj (Balloon3D_destroy r w) r) \<and>
   Balloon3D_destroy r (Balloon3D_destroy r w) = Balloon3D_destroy r w \<and>
   (player (fold (applyTargetOp r) ops w) = player w \<or>
    player (fold (applyTargetOp r) ops w) = player (Balloon3D_destroy r w)) \<and>
   player (fold (applyTargetOp r) ops (Balloon3D_destroy r w)) = player (Balloon3D_destroy r w)"
proof -
  have "fst (Balloon3D_hit r w) = (balloon_health (balloonObj w r) \<le> 1)"
    by (simp add: Balloon3D_hit_def Let_def)
  moreover have "player (fold (applyTargetOp r) ops (Balloon3D_destroy r w))
                   = player (Balloon3D_destroy r w)"
    using dead_ops [OF destroy_not_alive] by blast
  moreover note hit_health [of r w] hit_alive [of r w] hit_player [of r w]
    destroy_not_alive [of r w] destroy_idem [of r w] ops_award_once [of r ops w]
  ultimately show ?thesis by blast
qed

subsection \<open>Target: crossing the near boundary\<close>

lemma update_crossing:
  assumes "maxAge (balloonObj w r) = None"
    and "20 < jsAdd (vec_z (position (balloonObj w r)))
                 (jsMul (vec_z (velocity (balloonObj w r))) dt)"
  shows "Balloon3D_update dt r w =
           Balloon3D_destroy r (Balloon3D_onMissed
             (w\<lparr> balloonObj := (balloonObj w)(r := GameObject3D_advance dt (balloonObj w r)) \<rparr>))"
  using assms
  by (simp add: Balloon3D_update_def Let_def GameObject3D_expired_def GameObject3D_advance_def)

lemma onMissed_balloonObj: "balloonObj (Balloon3D_onMissed w) = balloonObj w"
  by (simp add: Balloon3D_onMissed_def Let_def split: option.splits prod.splits)

text \<open>The step of the example balloon: \<open>12 * (1 / 32) = 0.375\<close> and \<open>19.75 + 0.375 = 20.125\<close>.\<close>

lemma missWorld_step: "jsAdd (79 / 4) (jsMul 12 (1 / 32)) = 161 / 8"
proof -
  have a: "jsMul 12 (1 / 32) = 3 / 8" by (simp add: jsMul_def fl_compute)
  have b: "jsAdd (79 / 4) (3 / 8) = 161 / 8" by (simp add: jsAdd_def fl_compute)
  show ?thesis unfolding a by (rule b)
qed

lemma zero_step: "jsAdd 0 (jsMul 0 d) = 0"
  by (simp add: jsAdd_def jsMul_def fl_zero)

lemma missWorld_update:
  "Balloon3D_update (1 / 32) 0 (missWorld p act ty pts hp) =
     Balloon3D_destroy 0 (Balloon3D_onMissed
       ((missWorld p act ty pts hp)\<lparr> balloonObj := (balloonObj (missWorld p act ty pts hp))
           (0 := GameObject3D_advance (1 / 32) (balloonObj (missWorld p act ty pts hp) 0)) \<rparr>))"
  by (rule update_crossing)
     (simp_all add: missWorld_def sceneWith_def balloonAt_def missWorld_step)

lemma missWorld_update_health:
  "balloon_health (balloonObj (Balloon3D_update (1 / 32) 0 (missWorld p act ty pts hp)) 0) = hp"
  unfolding missWorld_update
  by (simp add: destroy_health onMissed_balloonObj GameObject3D_advance_def Let_def
        missWorld_def sceneWith_def balloonAt_def)

text \<open>
  C6 (as amended). \<^verbatim>\<open>hit()\<close> has no liveness guard of its own. On a destroyed Target it
  still lowers the hit-points by 1, and changes nothing else: the Target stays destroyed
  and the player state is untouched. The no-op for delayed damage is the caller's: the
  chain-reaction callback tests \<^verbatim>\<open>balloon.isAlive\<close> first and leaves the world as it is.
\<close>

theorem hit_on_destroyed_target:
  "\<not> isAlive (balloonObj w r) \<Longrightarrow>
     snd (Balloon3D_hit r w) =
       w\<lparr> balloonObj := (balloonObj w)
            (r := (balloonObj w r)\<lparr> balloon_health := balloon_health (balloonObj w r) - 1 \<rparr>) \<rparr> \<and>
     player (snd (Balloon3D_hit r w)) = player w \<and>
     \<not> isAlive (balloonObj (snd (Balloon3D_hit r w)) r) \<and>
     chainCallback r w = w"
  by (simp add: hit_dead chainCallback_def)

theorem hit_on_destroyed_target_witness:
  "\<not> isAlive (balloonObj
        (Balloon3D_update (1 / 32) 0 (missWorld PlayerState_constructor None Armored 150 3)) 0) \<and>
   player (snd (Balloon3D_hit 0
        (Balloon3D_update (1 / 32) 0 (missWorld PlayerState_constructor None Armored 150 3))))
     = player (Balloon3D_update (1 / 32) 0 (missWorld PlayerState_constructor None Armored 150 3)) \<and>
   \<not> isAlive (balloonObj (snd (Balloon3D_hit 0
        (Balloon3D_update (1 / 32) 0 (missWorld PlayerState_constructor None Armored 150 3)))) 0) \<and>
   chainCallback 0 (Balloon3D_update (1 / 32) 0 (missWorld PlayerState_constructor None Armored 150 3))
     = Balloon3D_update (1 / 32) 0 (missWorld PlayerState_constructor None Armored 150 3)"
proof -
  have d: "\<not> isAlive (balloonObj
        (Balloon3D_update (1 / 32) 0 (missWorld PlayerState_constructor None Armored 150 3)) 0)"
    unfolding missWorld_update by (rule destroy_not_alive)
  from hit_on_destroyed_target [OF d] d show ?thesis by simp
qed

text \<open>
  C6 as stated fails: an armored Target with 3 hit-points that is destroyed by crossing
  the near boundary keeps its 3 hit-points; a hit on it then leaves 2.
\<close>

theorem hit_on_destroyed_target_counterexample:
  "\<not> isAlive (balloonObj
        (Balloon3D_update (1 / 32) 0 (missWorld PlayerState_constructor None Armored 150 3)) 0) \<and>
   balloon_health (balloonObj
        (Balloon3D_update (1 / 32) 0 (missWorld PlayerState_constructor None Armored 150 3)) 0) = 3 \<and>
   balloon_health (balloonObj (snd (Balloon3D_hit 0
        (Balloon3D_update (1 / 32) 0 (missWorld PlayerState_constructor None Armored 150 3)))) 0) = 2"
proof -
  have "\<not> isAlive (balloonObj
        (Balloon3D_update (1 / 32) 0 (missWorld PlayerState_constructor None Armored 150 3)) 0)"
    unfolding missWorld_update by (rule destroy_not_alive)
  then show ?thesis
    by (simp add: hit_health missWorld_update_health)
qed












lemma onMissed_shielded:
  "player w = Some p \<Longrightarrow> isShielded p \<Longrightarrow> Balloon3D_onMissed w = w"
  by (simp add: Balloon3D_onMissed_def PlayerState_addMissed_def Let_def)



text \<open>The numbers of the example: the depth bonus at 20.125 and the chain bonus at combo 1.\<close>

lemma getDepthBonus_missWorld: "getDepthBonus (161 / 8) 200 = 676243631547351 / 562949953421312"
  by (simp add: getDepthBonus_def jsDiv_def jsMul_def jsAdd_def fl_compute)




subsection \<open>The shield\<close>

text \<open>
  C9 (as amended). While the shield flag is set, \<^verbatim>\<open>addMissed\<close> and \<^verbatim>\<open>takeDamage\<close> return
  false and leave the player as it is: missed count, health, shields and combo are
  unchanged. (A perimeter breach is more than these two calls: see below.)
\<close>

theorem shielded_breach_no_effect:
  "isShielded this \<Longrightarrow>
     PlayerState_addMissed this = (False, this) \<and>
     PlayerState_takeDamage amount this = (False, this)"
  by (simp add: PlayerState_addMissed_def PlayerState_takeDamage_def)

theorem shielded_breach_no_effect_witness:
  "isShielded (PlayerState_constructor\<lparr> isShielded := True \<rparr>) \<and>
   PlayerState_addMissed (PlayerState_constructor\<lparr> isShielded := True \<rparr>)
     = (False, PlayerState_constructor\<lparr> isShielded := True \<rparr>) \<and>
   PlayerState_takeDamage 10 (PlayerState_constructor\<lparr> isShielded := True \<rparr>)
     = (False, PlayerState_constructor\<lparr> isShielded := True \<rparr>)"
  using shielded_breach_no_effect [of "PlayerState_constructor\<lparr> isShielded := True \<rparr>" 10]
  by simp

text \<open>
  C9 as stated fails in its last clause, that a perimeter breach under an active shield
  has no effect on the player state: an armored 150-point Target that crosses the near
  boundary while the shield is up is destroyed by the same update, which scores it
  (\<open>floor (floor (150 * 1.20125) * 1.3) = 234\<close>) and takes the combo from 3 to 4.
\<close>

theorem shielded_breach_counterexample:
  "map_option isShielded (player (missWorld shieldedPlayer (Some SHIELD) Armored 150 3)) = Some True \<and>
   isAlive (balloonObj (missWorld shieldedPlayer (Some SHIELD) Armored 150 3) 0) \<and>
   20 < vec_z (position (balloonObj
           (Balloon3D_update (1 / 32) 0 (missWorld shieldedPlayer (Some SHIELD) Armored 150 3)) 0)) \<and>
   map_option score (player (missWorld shieldedPlayer (Some SHIELD) Armored 150 3)) = Some 0 \<and>
   map_option score
     (player (Balloon3D_update (1 / 32) 0 (missWorld shieldedPlayer (Some SHIELD) Armored 150 3)))
     = Some 234 \<and>
   map_option (\<lambda>p. currentCombo (stats p))
     (player (missWorld shieldedPlayer (Some SHIELD) Armored 150 3)) = Some 3 \<and>
   map_option (\<lambda>p. currentCombo (stats p))
     (player (Balloon3D_update (1 / 32) 0 (missWorld shieldedPlayer (Some SHIELD) Armored 150 3)))
     = Some 4"
proof -
  let ?w = "missWorld shieldedPlayer (Some SHIELD) Armored 150 3"
  let ?w1 = "?w\<lparr> balloonObj := (balloonObj ?w)(0 := GameObject3D_advance (1 / 32) (balloonObj ?w 0)) \<rparr>"
  have plw: "player ?w = Some shieldedPlayer"
    and pm: "powerUpManager ?w = Some \<lparr> activePowerUp = Some SHIELD, endTime = 10000 \<rparr>"
    by (simp_all add: missWorld_def sceneWith_def)
  then have pl: "player ?w1 = Some shieldedPlayer" by simp
  have sh: "isShielded shieldedPlayer" "currentCombo (stats shieldedPlayer) = 3"
    "score shieldedPlayer = 0"
    by (simp_all add: shieldedPlayer_def PlayerState_constructor_def)
  have u: "Balloon3D_update (1 / 32) 0 ?w = Balloon3D_destroy 0 ?w1"
    unfolding missWorld_update using onMissed_shielded [OF pl sh(1)] by simp
  have b: "GameObject3D_advance (1 / 32) (balloonObj ?w 0) =
             (balloonAt (79 / 4) Armored 150 3)
               \<lparr> age := jsAdd 9 (1 / 32),
                 position := \<lparr> vec_x = 0, vec_y = 0, vec_z = 161 / 8 \<rparr> \<rparr>"
    by (simp add: missWorld_def sceneWith_def balloonAt_def GameObject3D_advance_def Let_def
          missWorld_step zero_step)
  have s: "depthStage 150 (Some \<lparr> vec_x = 0, vec_y = 0, vec_z = 161 / 8 \<rparr>) = 180"
    by (simp add: depthStage_def getDepthBonus_missWorld jsMul_def fl_compute)
  have c3: "\<lfloor>jsMul 180 (comboMultiplierOf 3)\<rfloor> = 234"
    by (simp add: comboMultiplierOf_def jsAdd_def jsMul_def fl_compute)
  have a: "player (Balloon3D_awardScore 0 ?w1) =
             Some (snd (PlayerState_addScore 150 (Some \<lparr> vec_x = 0, vec_y = 0, vec_z = 161 / 8 \<rparr>)
                          shieldedPlayer))"
    by (simp add: Balloon3D_awardScore_def plw b balloonAt_def Let_def)
  have rest: "player (Balloon3D_destroy 0 ?w1) = player (Balloon3D_awardScore 0 ?w1)"
    by (simp add: Balloon3D_destroy_def Balloon3D_triggerPowerUp_def Balloon3D_checkVortexChain_def
          PowerUpManager_isActive_def Balloon3D_awardScore_def plw pm b balloonAt_def Let_def)
  have z: "vec_z (position (balloonObj (Balloon3D_destroy 0 ?w1) 0)) = 161 / 8"
    by (simp add: destroy_balloonObj b balloonAt_def)
  have before: "map_option isShielded (player ?w) = Some True"
    "isAlive (balloonObj ?w 0)" "map_option score (player ?w) = Some 0"
    "map_option (\<lambda>p. currentCombo (stats p)) (player ?w) = Some 3"
    by (simp_all add: plw sh) (simp add: missWorld_def sceneWith_def balloonAt_def)
  have after: "map_option score (player (Balloon3D_destroy 0 ?w1)) = Some 234"
    "map_option (\<lambda>p. currentCombo (stats p)) (player (Balloon3D_destroy 0 ?w1)) = Some 4"
    unfolding rest a by (simp_all add: addScore_score addScore_points addScore_combo s c3 sh)
  show ?thesis
    unfolding u using before after z by simp
qed

subsection \<open>Collision resolution\<close>

text \<open>
  The numbers of the scene with two drones: the projectile is at distance 1 of each
  drone, and the hit radius of a drone is \<open>max 3 2 / 2 + 1 = 2.5\<close>.
\<close>

lemma twoDrones_distance:
  "distanceTo \<lparr>vec_x = 0, vec_y = 0, vec_z = - 30\<rparr> \<lparr>vec_x = 1, vec_y = 0, vec_z = - 30\<rparr> = 1"
  "distanceTo \<lparr>vec_x = 0, vec_y = 0, vec_z = - 30\<rparr> \<lparr>vec_x = 0, vec_y = 1, vec_z = - 30\<rparr> = 1"
  by (simp_all add: distanceTo_def jsSub_def jsMul_def jsAdd_def fl_zero fl_one fl_minus)

lemma drone_hitRadius: "jsAdd (jsDiv 3 2) 1 = 5 / 2"
proof -
  have a: "jsDiv 3 2 = 3 / 2" by (simp add: jsDiv_def fl_compute)
  have b: "jsAdd (3 / 2) 1 = 5 / 2" by (simp add: jsAdd_def fl_compute)
  show ?thesis unfolding a by (rule b)
qed

text \<open>
  C2, evaluated on the scene with one player projectile and two live drones, both within
  hit radius and both with 2 hit-points: in one pass of \<^verbatim>\<open>handleCollisions\<close> the projectile
  hits both drones. The inner loop over the enemies goes on after the projectile has been
  destroyed; its liveness is only tested before the loop and between the two loops.
\<close>

theorem projectile_hits_two_enemies:
  "enemy_health (enemyObj twoDronesWorld 0) = 2 \<and>
   enemy_health (enemyObj twoDronesWorld 1) = 2 \<and>
   projectiles twoDronesWorld = [0] \<and>
   enemy_health (enemyObj (handleCollisions twoDronesWorld) 0) = 1 \<and>
   enemy_health (enemyObj (handleCollisions twoDronesWorld) 1) = 1"
  by (simp add: handleCollisions_def twoDronesWorld_def sceneWith_def playerShot_def droneAt_def
        playerProjectileStep_def forEach_def forEachLive.simps hitTestEnemy_def hitTestBalloon_def
        EnemyDrone3D_hit_def EnemyDrone3D_destroy_def removeObject_def splice1_def
        GameObject3D_destroy_def twoDrones_distance drone_hitRadius enemyProjectileStep_def
        Let_def)

text \<open>
  The part of C2 that holds: enemies are tested first, and a projectile that the enemy
  loop has destroyed is not tested against any balloon.
\<close>

lemma hostiles_take_precedence:
  "isAlive (projectileObj w projectile) \<Longrightarrow>
   \<not> isAlive (projectileObj (forEach enemies (hitTestEnemy projectile) w) projectile) \<Longrightarrow>
     playerProjectileStep projectile w = forEach enemies (hitTestEnemy projectile) w"
  by (simp add: playerProjectileStep_def Let_def)

subsection \<open>Wave progression\<close>











text \<open>
  Why boss waves are set apart: in wave 5 every frame spawns a boss, and the
  \<^verbatim>\<open>destroy()\<close> call in \<^verbatim>\<open>spawnBoss\<close> counts it as a destroyed enemy although the scene
  has killed nothing.
\<close>

lemma boss_wave_counts_kills:
  "map_option (\<lambda>p. enemiesDestroyed (stats p))
     (snd (gameLoop (frameAt 16)
             (fst startedGame, Some (PlayerState_constructor\<lparr> wave := 5 \<rparr>)))) = Some 1"
proof -
  let ?f = "frameAt 16"
  let ?p = "PlayerState_constructor\<lparr> wave := 5 \<rparr>"
  let ?gf = "GameFlow_start 0 GameFlow_constructor"
  have u: "GameFlow_update ?f (?gf, Some ?p) =
             (?gf\<lparr> frameCount := 1 \<rparr>, spawnBoss ?f (Some ?p))"
    by (simp add: GameFlow_update_def GameFlow_checkWaveProgression_def
          GameFlow_shouldAdvanceWave_def GameFlow_checkLevelProgression_def remainderIsZero_def
          GameFlow_start_def GameFlow_constructor_def PlayerState_constructor_def frameAt_def
          Let_def)
  obtain q where q: "snd (PlayerState_addScore 500 (Some \<lparr>vec_x = 0, vec_y = 0, vec_z = - 80\<rparr>) ?p) = q"
    by blast
  have qw: "wave q = 5" "enemiesDestroyed (stats q) = 0"
    using q by (auto simp: PlayerState_addScore_def PlayerState_constructor_def Let_def)
  have b: "spawnBoss ?f (Some ?p) =
             Some (q\<lparr> stats := (stats q)\<lparr> enemiesDestroyed := enemiesDestroyed (stats q) + 1 \<rparr> \<rparr>)"
    by (simp add: spawnBoss_def frameAt_def q Let_def)
  have c: "bossWaveInterval (waveConfig ?gf) = 5" "enemiesLength ?f = 0" "sceneEffect ?f = (\<lambda>q. q)"
    by (simp_all add: GameFlow_start_def GameFlow_constructor_def frameAt_def)
  show ?thesis
    by (simp add: gameLoop_def updateGame_def startedGame_def u b qw c checkGameConditions_def
          levelComplete_def GameFlow_isBossWave_def remainderIsZero_def Let_def)
qed









end
